theory Spec2Isabelle
  imports Complex_Main "HOL-Library.Log_Nat"
begin

section \<open>Python values\<close>

text \<open>
  Both deployments (\<^verbatim>\<open>mcp-server/server.py\<close> and \<^verbatim>\<open>src/function_app.py\<close>) work on
  decoded JSON: the upstream payload, its report records, and (in the trigger handler) the
  argument object. A decoded JSON value is a \<open>json\<close>; a Python \<open>dict\<close> is an association
  list whose keys are distinct, in insertion order. Strings are ASCII texts.

  A Python \<open>float\<close> is a binary64 number: \<open>Finite q\<close> is the number whose value is the
  rational \<open>q\<close> (positive zero for \<open>q = 0\<close>), \<open>NegZero\<close> is \<open>-0.0\<close>, and there are the two
  infinities and \<open>nan\<close>. Every operation computes the exact rational result and rounds it to
  the nearest binary64 number, ties to even, as the hardware does.

  An exception is a value of \<open>pyerror\<close>; a computation that may raise returns
  \<open>pyerror + 'a\<close> with \<open>Inl\<close> for the exception.
\<close>

datatype pyerror =
  ValueError | TypeError | AttributeError | KeyError | IndexError | OverflowError
  | RuntimeError | HTTPError | OtherError

datatype pyfloat = Finite rat | NegZero | PosInf | NegInf | NaN

datatype json =
  JNull | JBool bool | JInt int | JFloat pyfloat | JStr string
  | JArr "json list" | JObj "(string \<times> json) list"

text \<open>
  The numbers of the metric derivations: the int literal \<open>0\<close> that the guard's \<open>else\<close>
  branch yields, or a float.
\<close>

datatype pynum = PyZero | PyFloat pyfloat

subsection \<open>Truth value, \<open>dict.get\<close>, \<open>len\<close>, slices, iteration\<close>

fun truthy :: "json \<Rightarrow> bool" where
  "truthy JNull = False"
| "truthy (JBool b) = b"
| "truthy (JInt i) = (i \<noteq> 0)"
| "truthy (JFloat f) = (f \<noteq> Finite 0 \<and> f \<noteq> NegZero)"
| "truthy (JStr s) = (s \<noteq> [])"
| "truthy (JArr xs) = (xs \<noteq> [])"
| "truthy (JObj kvs) = (kvs \<noteq> [])"

text \<open>\<open>x.get(k, d)\<close>: only a dict has the method.\<close>

fun py_get :: "json \<Rightarrow> string \<Rightarrow> json \<Rightarrow> pyerror + json" where
  "py_get (JObj kvs) k d = Inr (case map_of kvs k of None \<Rightarrow> d | Some v \<Rightarrow> v)"
| "py_get _ k d = Inl AttributeError"

fun py_len :: "json \<Rightarrow> pyerror + nat" where
  "py_len (JStr s) = Inr (length s)"
| "py_len (JArr xs) = Inr (length xs)"
| "py_len (JObj kvs) = Inr (length kvs)"
| "py_len _ = Inl TypeError"

text \<open>
  \<open>x[a:b]\<close> for constants \<open>0 \<le> a \<le> b\<close>: a slice of a string or list is clipped to its
  length and never raises; a dict or a scalar cannot be sliced.
\<close>

fun py_slice :: "json \<Rightarrow> nat \<Rightarrow> nat \<Rightarrow> pyerror + json" where
  "py_slice (JStr s) a b = Inr (JStr (take (b - a) (drop a s)))"
| "py_slice (JArr xs) a b = Inr (JArr (take (b - a) (drop a xs)))"
| "py_slice _ a b = Inl TypeError"

text \<open>What \<open>for report in x\<close> visits: a dict yields its keys, a string its characters.\<close>

fun py_iter :: "json \<Rightarrow> pyerror + json list" where
  "py_iter (JArr xs) = Inr xs"
| "py_iter (JStr s) = Inr (map (\<lambda>c. JStr [c]) s)"
| "py_iter (JObj kvs) = Inr (map (\<lambda>kv. JStr (fst kv)) kvs)"
| "py_iter _ = Inl TypeError"

text \<open>\<open>x[0]\<close>: the keys of a decoded JSON object are strings, so \<open>0\<close> is never one.\<close>

fun py_index0 :: "json \<Rightarrow> pyerror + json" where
  "py_index0 (JArr []) = Inl IndexError"
| "py_index0 (JArr (x # xs)) = Inr x"
| "py_index0 (JStr []) = Inl IndexError"
| "py_index0 (JStr (c # cs)) = Inr (JStr [c])"
| "py_index0 (JObj kvs) = Inl KeyError"
| "py_index0 _ = Inl TypeError"

subsection \<open>\<open>int(...)\<close>\<close>

text \<open>The whitespace \<open>int\<close> and \<open>float\<close> strip from an ASCII text: codes 9 to 13, and 32.\<close>

definition is_space :: "char \<Rightarrow> bool" where
  "is_space c = (let n = (of_char c :: nat) in (9 \<le> n \<and> n \<le> 13) \<or> n = 32)"

definition is_digit :: "char \<Rightarrow> bool" where
  "is_digit c = (let n = (of_char c :: nat) in 48 \<le> n \<and> n \<le> 57)"

definition digit_val :: "char \<Rightarrow> int" where
  "digit_val c = of_char c - 48"

definition strip :: "string \<Rightarrow> string" where
  "strip s = rev (dropWhile is_space (rev (dropWhile is_space s)))"

text \<open>
  A digit group: decimal digits, with single underscores allowed between two digits
  (\<open>1_000\<close>), nothing else. \<open>digits_acc\<close> is called on a string that starts with a digit.
\<close>

fun digits_acc :: "int \<Rightarrow> string \<Rightarrow> int option" where
  "digits_acc a [] = Some a"
| "digits_acc a (c # cs) =
     (if is_digit c then digits_acc (10 * a + digit_val c) cs
      else if c = CHR ''_'' then
        (case cs of [] \<Rightarrow> None | d # _ \<Rightarrow> if is_digit d then digits_acc a cs else None)
      else None)"

definition digits_value :: "string \<Rightarrow> int option" where
  "digits_value s = (case s of [] \<Rightarrow> None | c # _ \<Rightarrow> if is_digit c then digits_acc 0 s else None)"

text \<open>A leading sign: \<open>(negative, rest)\<close>.\<close>

definition split_sign :: "string \<Rightarrow> bool \<times> string" where
  "split_sign s =
     (case s of [] \<Rightarrow> (False, [])
      | c # cs \<Rightarrow> if c = CHR ''-'' then (True, cs) else if c = CHR ''+'' then (False, cs) else (False, s))"

text \<open>
  \<open>int(s)\<close> for a string, base 10: surrounding whitespace, a sign, one digit group. The
  interpreter refuses a text of more than 4300 digits (its default
  \<open>int_max_str_digits\<close>) with \<open>ValueError\<close>.
\<close>

definition py_int_str :: "string \<Rightarrow> pyerror + int" where
  "py_int_str s =
     (case split_sign (strip s) of
        (neg, ds) \<Rightarrow>
          (case digits_value ds of
             None \<Rightarrow> Inl ValueError
           | Some n \<Rightarrow>
               if 4300 < length (filter is_digit ds) then Inl ValueError
               else Inr (if neg then - n else n)))"

text \<open>Truncation towards zero, as \<open>int(x)\<close> does for a float.\<close>

definition trunc_rat :: "rat \<Rightarrow> int" where
  "trunc_rat q = (if 0 \<le> q then \<lfloor>q\<rfloor> else \<lceil>q\<rceil>)"

fun py_int :: "json \<Rightarrow> pyerror + int" where
  "py_int (JInt i) = Inr i"
| "py_int (JBool b) = Inr (if b then 1 else 0)"
| "py_int (JFloat (Finite q)) = Inr (trunc_rat q)"
| "py_int (JFloat NegZero) = Inr 0"
| "py_int (JFloat NaN) = Inl ValueError"
| "py_int (JFloat _) = Inl OverflowError"
| "py_int (JStr s) = py_int_str s"
| "py_int _ = Inl TypeError"

subsection \<open>Binary64 rounding\<close>

text \<open>\<open>2 ^ n\<close> for \<open>n \<ge> 0\<close>, by repeated squaring, and \<open>2 ^ e\<close> for any integer \<open>e\<close>.\<close>

function pow2_nat :: "int \<Rightarrow> rat" where
  "pow2_nat n =
     (if n \<le> 0 then 1
      else if even n then pow2_nat (n div 2) * pow2_nat (n div 2)
      else 2 * (pow2_nat (n div 2) * pow2_nat (n div 2)))"
  by pat_completeness auto
termination
  by (relation "measure nat") auto

declare pow2_nat.simps [simp del]

definition pow2 :: "int \<Rightarrow> rat" where
  "pow2 e = (if 0 \<le> e then pow2_nat e else 1 / pow2_nat (- e))"

text \<open>For \<open>q > 0\<close>, the exponent \<open>e\<close> with \<open>2 ^ e \<le> q < 2 ^ (e + 1)\<close>.\<close>

definition floor_log2 :: "rat \<Rightarrow> int" where
  "floor_log2 q =
     (case quotient_of q of
        (n, d) \<Rightarrow> (let e = bitlen n - bitlen d in if pow2 e \<le> q then e else e - 1))"

definition round_half_even :: "rat \<Rightarrow> int" where
  "round_half_even q =
     (let f = \<lfloor>q\<rfloor>; d = q - of_int f
      in if d < 1 / 2 then f else if 1 / 2 < d then f + 1 else if even f then f else f + 1)"

text \<open>
  The binary64 number nearest to a rational, ties to even: the value is rounded to a
  multiple \<open>m * 2 ^ (e - 52)\<close> of the spacing at its exponent \<open>e\<close>, which is no smaller
  than the exponent \<open>-1022\<close> of the subnormal numbers; a result of \<open>2 ^ 1024\<close> or more is
  an infinity, and a negative value that rounds to zero gives \<open>-0.0\<close>.
\<close>

definition double_of_rat :: "rat \<Rightarrow> pyfloat" where
  "double_of_rat q =
     (if q = 0 then Finite 0
      else
        (let a = \<bar>q\<bar>;
             e = max (floor_log2 a) (- 1022);
             u = pow2 (e - 52);
             m = round_half_even (a / u);
             r = of_int m * u
         in if 1024 \<le> e \<or> (e = 1023 \<and> m = 2 ^ 53) then (if q < 0 then NegInf else PosInf)
            else if m = 0 then (if q < 0 then NegZero else Finite 0)
            else Finite (if q < 0 then - r else r)))"

fun fneg :: "pyfloat \<Rightarrow> pyfloat" where
  "fneg (Finite q) = (if q = 0 then NegZero else Finite (- q))"
| "fneg NegZero = Finite 0"
| "fneg PosInf = NegInf"
| "fneg NegInf = PosInf"
| "fneg NaN = NaN"

text \<open>\<open>float(i)\<close> for an int: the nearest float, \<open>OverflowError\<close> beyond the largest one.\<close>

definition int_to_float :: "int \<Rightarrow> pyerror + pyfloat" where
  "int_to_float i =
     (case double_of_rat (of_int i) of
        PosInf \<Rightarrow> Inl OverflowError
      | NegInf \<Rightarrow> Inl OverflowError
      | f \<Rightarrow> Inr f)"

subsection \<open>\<open>float(...)\<close>\<close>

definition lower_char :: "char \<Rightarrow> char" where
  "lower_char c =
     (case map_of (zip ''ABCDEFGHIJKLMNOPQRSTUVWXYZ'' ''abcdefghijklmnopqrstuvwxyz'') c of
        None \<Rightarrow> c | Some l \<Rightarrow> l)"

definition upper_char :: "char \<Rightarrow> char" where
  "upper_char c =
     (case map_of (zip ''abcdefghijklmnopqrstuvwxyz'' ''ABCDEFGHIJKLMNOPQRSTUVWXYZ'') c of
        None \<Rightarrow> c | Some u \<Rightarrow> u)"

text \<open>\<open>s.upper()\<close> on ASCII text.\<close>

definition py_upper :: "string \<Rightarrow> string" where
  "py_upper s = map upper_char s"

definition digit_or_us :: "char \<Rightarrow> bool" where
  "digit_or_us c = (is_digit c \<or> c = CHR ''_'')"

text \<open>
  The exponent part of a decimal literal: empty, or \<open>e\<close>/\<open>E\<close>, an optional sign and a
  digit group.
\<close>

definition exponent_value :: "string \<Rightarrow> int option" where
  "exponent_value s =
     (case s of [] \<Rightarrow> Some 0
      | c # cs \<Rightarrow>
          if c = CHR ''e'' \<or> c = CHR ''E'' then
            (case split_sign cs of
               (neg, ds) \<Rightarrow>
                 (case digits_value ds of
                    None \<Rightarrow> None
                  | Some n \<Rightarrow> Some (if neg then - n else n)))
          else None)"

definition scale10 :: "rat \<Rightarrow> int \<Rightarrow> rat" where
  "scale10 q e = (if 0 \<le> e then q * 10 ^ nat e else q / 10 ^ nat (- e))"

text \<open>
  An unsigned decimal literal: an integer part, an optional point and fraction part (at
  least one of the two parts has a digit), an optional exponent.
\<close>

definition decimal_value :: "string \<Rightarrow> rat option" where
  "decimal_value s =
     (let ip = takeWhile digit_or_us s;
          r1 = dropWhile digit_or_us s;
          has_point = (r1 \<noteq> [] \<and> hd r1 = CHR ''.'');
          fp = (if has_point then takeWhile digit_or_us (tl r1) else []);
          r2 = (if has_point then dropWhile digit_or_us (tl r1) else r1);
          iv = (if ip = [] then Some 0 else digits_value ip);
          fv = (if fp = [] then Some 0 else digits_value fp);
          nfrac = length (filter is_digit fp)
      in if ip = [] \<and> fp = [] then None
         else (case (iv, fv, exponent_value r2) of
                 (Some i, Some f, Some e) \<Rightarrow>
                   Some (scale10 (of_int i + of_int f / 10 ^ nfrac) e)
               | _ \<Rightarrow> None))"

text \<open>
  \<open>float(s)\<close> for a string: surrounding whitespace, a sign, then \<open>inf\<close>, \<open>infinity\<close> or
  \<open>nan\<close> in any case, or a decimal literal, rounded to the nearest float.
\<close>

definition py_float_str :: "string \<Rightarrow> pyerror + pyfloat" where
  "py_float_str s =
     (case split_sign (strip s) of
        (neg, body) \<Rightarrow>
          (let w = map lower_char body in
           if w = ''inf'' \<or> w = ''infinity'' then Inr (if neg then NegInf else PosInf)
           else if w = ''nan'' then Inr NaN
           else (case decimal_value body of
                   None \<Rightarrow> Inl ValueError
                 | Some q \<Rightarrow> Inr (if neg then fneg (double_of_rat q) else double_of_rat q))))"

fun py_float :: "json \<Rightarrow> pyerror + pyfloat" where
  "py_float (JInt i) = int_to_float i"
| "py_float (JBool b) = Inr (Finite (if b then 1 else 0))"
| "py_float (JFloat f) = Inr f"
| "py_float (JStr s) = py_float_str s"
| "py_float _ = Inl TypeError"

subsection \<open>Arithmetic and \<open>round(x, 2)\<close>\<close>

fun as_float :: "pynum \<Rightarrow> pyfloat" where
  "as_float PyZero = Finite 0"
| "as_float (PyFloat f) = f"

fun fabs :: "pyfloat \<Rightarrow> pyfloat" where
  "fabs (Finite q) = Finite \<bar>q\<bar>"
| "fabs NegZero = Finite 0"
| "fabs PosInf = PosInf"
| "fabs NegInf = PosInf"
| "fabs NaN = NaN"

text \<open>The value of a float that is neither an infinity nor \<open>nan\<close>.\<close>

fun fval :: "pyfloat \<Rightarrow> rat" where
  "fval (Finite q) = q"
| "fval _ = 0"

text \<open>
  \<open>x - y\<close> on floats. An exact zero difference is \<open>0.0\<close>, except \<open>-0.0 - 0.0\<close>, which
  is \<open>-0.0\<close>.
\<close>

fun fsub :: "pyfloat \<Rightarrow> pyfloat \<Rightarrow> pyfloat" where
  "fsub NaN y = NaN"
| "fsub x NaN = NaN"
| "fsub PosInf PosInf = NaN"
| "fsub NegInf NegInf = NaN"
| "fsub PosInf y = PosInf"
| "fsub NegInf y = NegInf"
| "fsub x PosInf = NegInf"
| "fsub x NegInf = PosInf"
| "fsub x y =
     (if fval x - fval y = 0 then (if x = NegZero \<and> y \<noteq> NegZero then NegZero else Finite 0)
      else double_of_rat (fval x - fval y))"

text \<open>\<open>abs(x)\<close> and \<open>x - y\<close>: the int \<open>0\<close> stays an int until it meets a float.\<close>

fun py_abs :: "pynum \<Rightarrow> pynum" where
  "py_abs PyZero = PyZero"
| "py_abs (PyFloat f) = PyFloat (fabs f)"

fun py_sub :: "pynum \<Rightarrow> pynum \<Rightarrow> pynum" where
  "py_sub PyZero PyZero = PyZero"
| "py_sub x y = PyFloat (fsub (as_float x) (as_float y))"

text \<open>
  \<open>x / 1_000_000\<close>: true division by a positive int constant that is exact as a float
  gives a float.
\<close>

fun fdiv_pos :: "pyfloat \<Rightarrow> int \<Rightarrow> pyfloat" where
  "fdiv_pos (Finite q) n = double_of_rat (q / of_int n)"
| "fdiv_pos x n = x"

definition py_truediv :: "pynum \<Rightarrow> int \<Rightarrow> pyfloat" where
  "py_truediv x n = fdiv_pos (as_float x) n"

text \<open>
  \<open>round(x, 2)\<close> on a float: the exact value is rounded to two decimals, ties to even,
  and the decimal is converted back to the nearest float; a negative value that rounds to
  zero gives \<open>-0.0\<close>; the special values round to themselves.
\<close>

fun py_round2 :: "pyfloat \<Rightarrow> pyfloat" where
  "py_round2 (Finite q) =
     (let k = round_half_even (q * 100)
      in if k = 0 \<and> q < 0 then NegZero else double_of_rat (of_int k / 100))"
| "py_round2 x = x"

text \<open>\<open>str(n)\<close> for an int, as an f-string renders it.\<close>

definition digit_char :: "nat \<Rightarrow> char" where
  "digit_char n = ''0123456789'' ! n"

fun str_nat :: "nat \<Rightarrow> string" where
  "str_nat n = (if n < 10 then [digit_char n] else str_nat (n div 10) @ [digit_char (n mod 10)])"

declare str_nat.simps [simp del]

definition str_int :: "int \<Rightarrow> string" where
  "str_int i = (if i < 0 then CHR ''-'' # str_nat (nat (- i)) else str_nat (nat i))"

section \<open>The standalone server: \<^verbatim>\<open>mcp-server/server.py\<close>\<close>

definition VALID_SYMBOLS :: "string list" where
  "VALID_SYMBOLS = [''MSFT'', ''TSLA'', ''NVDA'']"

definition map_month_to_quarter :: "int \<Rightarrow> int option" where
  "map_month_to_quarter month =
     (if month \<in> set [9, 10] then Some 1
      else if month \<in> set [12, 1] then Some 2
      else if month \<in> set [3, 4] then Some 3
      else if month \<in> set [6, 7] then Some 4
      else None)"

text \<open>
  The loop of \<open>find_quarterly_report\<close>, one record at a time: \<open>Inr (Some report)\<close> is the
  \<open>return report\<close> inside the loop, \<open>Inr None\<close> is the loop running to its end, \<open>Inl e\<close> an
  exception raised while a record is examined.
\<close>

fun scan_reports :: "json list \<Rightarrow> int \<Rightarrow> int \<Rightarrow> pyerror + json option" where
  "scan_reports [] fiscal_year fiscal_quarter = Inr None"
| "scan_reports (report # rest) fiscal_year fiscal_quarter =
     (case py_get report ''fiscalDateEnding'' (JStr '''') of
        Inl e \<Rightarrow> Inl e
      | Inr fiscal_date \<Rightarrow>
          if \<not> truthy fiscal_date then scan_reports rest fiscal_year fiscal_quarter
          else (case py_len fiscal_date of
            Inl e \<Rightarrow> Inl e
          | Inr n \<Rightarrow>
              if n < 7 then scan_reports rest fiscal_year fiscal_quarter
              else (case py_slice fiscal_date 0 4 of
                Inl e \<Rightarrow> Inl e
              | Inr ys \<Rightarrow> (case py_int ys of
                Inl e \<Rightarrow> Inl e
              | Inr report_year \<Rightarrow> (case py_slice fiscal_date 5 7 of
                Inl e \<Rightarrow> Inl e
              | Inr ms \<Rightarrow> (case py_int ms of
                Inl e \<Rightarrow> Inl e
              | Inr report_month \<Rightarrow>
                  (case map_month_to_quarter report_month of
                     None \<Rightarrow> scan_reports rest fiscal_year fiscal_quarter
                   | Some report_quarter \<Rightarrow>
                       if report_quarter \<noteq> 0 \<and> report_year = fiscal_year
                          \<and> report_quarter = fiscal_quarter
                       then Inr (Some report)
                       else scan_reports rest fiscal_year fiscal_quarter)))))))"

text \<open>
  \<open>find_quarterly_report(reports, fiscal_year, fiscal_quarter)\<close>: the loop, then the
  fallback \<open>reports[0] if reports else None\<close>.
\<close>

definition find_quarterly_report :: "json \<Rightarrow> int \<Rightarrow> int \<Rightarrow> pyerror + json option" where
  "find_quarterly_report reports fiscal_year fiscal_quarter =
     (case py_iter reports of
        Inl e \<Rightarrow> Inl e
      | Inr rs \<Rightarrow>
          (case scan_reports rs fiscal_year fiscal_quarter of
             Inl e \<Rightarrow> Inl e
           | Inr (Some report) \<Rightarrow> Inr (Some report)
           | Inr None \<Rightarrow>
               if truthy reports then map_sum id Some (py_index0 reports) else Inr None))"

subsection \<open>The process environment and the Report Source\<close>

text \<open>
  What the tools read from outside: the API key in the process environment, the upstream
  HTTP GET (with \<open>raise_for_status\<close> and the decoding of the body; \<open>Inl HTTPError\<close> is a
  transport error, any other \<open>Inl\<close> another exception), the text \<open>str(e)\<close> of an exception,
  and \<open>json.loads\<close>. A tool returns its result together with the list of upstream requests
  it made, as \<open>(function, symbol)\<close> pairs. A result document is the dict handed to
  \<open>json.dumps\<close>; the serialisation itself is not modelled.
\<close>

record world =
  env_api_key :: "string option"
  http_get_json :: "string \<Rightarrow> string \<Rightarrow> string \<Rightarrow> pyerror + json"
  exc_str :: "pyerror \<Rightarrow> string"
  json_loads :: "string \<Rightarrow> pyerror + json"

type_synonym calls = "(string \<times> string) list"

definition ebind :: "pyerror + 'a \<Rightarrow> ('a \<Rightarrow> pyerror + 'b) \<Rightarrow> pyerror + 'b" where
  "ebind m f = (case m of Inl e \<Rightarrow> Inl e | Inr x \<Rightarrow> f x)"

definition get_api_key :: "world \<Rightarrow> pyerror + string" where
  "get_api_key w =
     (case env_api_key w of
        None \<Rightarrow> Inl ValueError
      | Some k \<Rightarrow> if k = [] then Inl ValueError else Inr k)"

definition fetch_alpha_vantage :: "world \<Rightarrow> string \<Rightarrow> string \<Rightarrow> (pyerror + json) \<times> calls" where
  "fetch_alpha_vantage w function symbol =
     (case get_api_key w of
        Inl e \<Rightarrow> (Inl e, [])
      | Inr api_key \<Rightarrow> (http_get_json w function symbol api_key, [(function, symbol)]))"

subsection \<open>Result documents\<close>

definition error_doc :: "string \<Rightarrow> json" where
  "error_doc message = JObj [(''status'', JStr ''error''), (''message'', JStr message)]"

fun join_comma :: "string list \<Rightarrow> string" where
  "join_comma [] = []"
| "join_comma [s] = s"
| "join_comma (s # t # ss) = s @ '', '' @ join_comma (t # ss)"

definition invalid_symbol_doc :: "string list \<Rightarrow> json" where
  "invalid_symbol_doc valid = error_doc (''Invalid company symbol. Supported: '' @ join_comma valid)"

definition invalid_quarter_doc :: json where
  "invalid_quarter_doc = error_doc ''Fiscal quarter must be 1, 2, 3, or 4''"

definition no_data_found_doc :: "string \<Rightarrow> int \<Rightarrow> int \<Rightarrow> json" where
  "no_data_found_doc symbol fiscal_year fiscal_quarter =
     error_doc (''No data found for '' @ symbol @ '' FY'' @ str_int fiscal_year
                @ '' Q'' @ str_int fiscal_quarter)"

fun num_json :: "pynum \<Rightarrow> json" where
  "num_json PyZero = JInt 0"
| "num_json (PyFloat f) = JFloat f"

subsection \<open>The metric extractors\<close>

text \<open>The guard \<open>x and x != "None"\<close>.\<close>

definition present :: "json \<Rightarrow> bool" where
  "present x = (truthy x \<and> x \<noteq> JStr ''None'')"

text \<open>
  \<open>round(float(revenue_str) / 1_000_000, 2) if revenue_str and revenue_str != "None" else 0\<close>
\<close>

definition revenue_millions :: "json \<Rightarrow> pyerror + pynum" where
  "revenue_millions revenue_str =
     (if present revenue_str
      then ebind (py_float revenue_str)
             (\<lambda>f. Inr (PyFloat (py_round2 (py_truediv (PyFloat f) 1000000))))
      else Inr PyZero)"

text \<open>\<open>float(x) if x and x != "None" else 0\<close>\<close>

definition metric_number :: "json \<Rightarrow> pyerror + pynum" where
  "metric_number x =
     (if present x then ebind (py_float x) (\<lambda>f. Inr (PyFloat f)) else Inr PyZero)"

text \<open>The number read from one metric field \<open>k\<close> of a report, \<open>get(k, "0")\<close> then the guard.\<close>

definition metric_field :: "json \<Rightarrow> string \<Rightarrow> pyerror + pynum" where
  "metric_field target_period k = ebind (py_get target_period k (JStr ''0'')) metric_number"

text \<open>
  The free-cash-flow derivation on a matched report: the values reported as
  \<open>free_cash_flow_usd_millions\<close>, \<open>operating_cash_flow_usd_millions\<close> and
  \<open>capital_expenditures_usd_millions\<close>.
\<close>

definition free_cash_flow_values :: "json \<Rightarrow> pyerror + (pyfloat \<times> pyfloat \<times> pyfloat)" where
  "free_cash_flow_values target_period =
     ebind (py_get target_period ''operatingCashflow'' (JStr ''0'')) (\<lambda>op_cashflow_str.
     ebind (py_get target_period ''capitalExpenditures'' (JStr ''0'')) (\<lambda>capex_str.
     ebind (metric_number op_cashflow_str) (\<lambda>op_cashflow.
     ebind (metric_number capex_str) (\<lambda>capex.
       let free_cash_flow = py_sub op_cashflow (py_abs capex)
       in Inr (py_round2 (py_truediv free_cash_flow 1000000),
               py_round2 (py_truediv op_cashflow 1000000),
               py_round2 (py_truediv (py_abs capex) 1000000))))))"

text \<open>The revenue derivation on a matched report: \<open>total_revenue_usd_millions\<close>.\<close>

definition total_revenue_usd_millions :: "json \<Rightarrow> pyerror + pynum" where
  "total_revenue_usd_millions target_period =
     ebind (py_get target_period ''totalRevenue'' (JStr ''0'')) revenue_millions"

subsection \<open>The tool \<open>get_company_revenue\<close>\<close>

definition revenue_result :: "string \<Rightarrow> int \<Rightarrow> int \<Rightarrow> json \<Rightarrow> pyerror + json" where
  "revenue_result symbol fiscal_year fiscal_quarter target_period =
     ebind (total_revenue_usd_millions target_period) (\<lambda>millions.
     ebind (py_get target_period ''fiscalDateEnding'' JNull) (\<lambda>fiscal_date_ending.
       Inr (JObj
         [(''company'', JStr symbol),
          (''fiscal_year'', JInt fiscal_year),
          (''fiscal_quarter'', JInt fiscal_quarter),
          (''fiscal_date_ending'', fiscal_date_ending),
          (''total_revenue_usd_millions'', num_json millions),
          (''currency'', JStr ''USD''),
          (''data_source'', JStr ''Alpha Vantage'')])))"

text \<open>The \<open>try\<close> block after the fetch, on the decoded payload.\<close>

definition revenue_from_data :: "string \<Rightarrow> int \<Rightarrow> int \<Rightarrow> json \<Rightarrow> pyerror + json" where
  "revenue_from_data symbol fiscal_year fiscal_quarter data =
     ebind (py_get data ''quarterlyReports'' (JArr [])) (\<lambda>quarterly_reports.
       if \<not> truthy quarterly_reports then Inr (error_doc ''No quarterly data available'')
       else ebind (find_quarterly_report quarterly_reports fiscal_year fiscal_quarter)
         (\<lambda>found. case found of
            None \<Rightarrow> Inr (no_data_found_doc symbol fiscal_year fiscal_quarter)
          | Some target_period \<Rightarrow>
              if \<not> truthy target_period
              then Inr (no_data_found_doc symbol fiscal_year fiscal_quarter)
              else revenue_result symbol fiscal_year fiscal_quarter target_period))"

text \<open>The two \<open>except\<close> clauses: \<open>httpx.HTTPError\<close> first, then \<open>Exception\<close>.\<close>

definition handle_exception :: "world \<Rightarrow> pyerror \<Rightarrow> json" where
  "handle_exception w e =
     (if e = HTTPError then error_doc (''HTTP error: '' @ exc_str w e)
      else error_doc (exc_str w e))"

definition get_company_revenue ::
  "world \<Rightarrow> string \<Rightarrow> int \<Rightarrow> int \<Rightarrow> (pyerror + json) \<times> calls" where
  "get_company_revenue w company_symbol fiscal_year fiscal_quarter =
     (let symbol = py_upper company_symbol in
      if symbol \<notin> set VALID_SYMBOLS then (Inr (invalid_symbol_doc VALID_SYMBOLS), [])
      else if fiscal_quarter \<notin> set [1, 2, 3, 4] then (Inr invalid_quarter_doc, [])
      else
        (case fetch_alpha_vantage w ''INCOME_STATEMENT'' symbol of
           (fetched, made) \<Rightarrow>
             (case ebind fetched (revenue_from_data symbol fiscal_year fiscal_quarter) of
                Inl e \<Rightarrow> (Inr (handle_exception w e), made)
              | Inr doc \<Rightarrow> (Inr doc, made))))"

subsection \<open>The tool \<open>get_company_free_cash_flow\<close>\<close>

definition free_cash_flow_result :: "string \<Rightarrow> int \<Rightarrow> int \<Rightarrow> json \<Rightarrow> pyerror + json" where
  "free_cash_flow_result symbol fiscal_year fiscal_quarter target_period =
     ebind (free_cash_flow_values target_period) (\<lambda>(fcf_millions, op_millions, capex_millions).
     ebind (py_get target_period ''fiscalDateEnding'' JNull) (\<lambda>fiscal_date_ending.
       Inr (JObj
         [(''company'', JStr symbol),
          (''fiscal_year'', JInt fiscal_year),
          (''fiscal_quarter'', JInt fiscal_quarter),
          (''fiscal_date_ending'', fiscal_date_ending),
          (''free_cash_flow_usd_millions'', JFloat fcf_millions),
          (''operating_cash_flow_usd_millions'', JFloat op_millions),
          (''capital_expenditures_usd_millions'', JFloat capex_millions),
          (''currency'', JStr ''USD''),
          (''data_source'', JStr ''Alpha Vantage''),
          (''calculation'', JStr ''Operating Cash Flow - Capital Expenditures'')])))"

definition free_cash_flow_from_data :: "string \<Rightarrow> int \<Rightarrow> int \<Rightarrow> json \<Rightarrow> pyerror + json" where
  "free_cash_flow_from_data symbol fiscal_year fiscal_quarter data =
     ebind (py_get data ''quarterlyReports'' (JArr [])) (\<lambda>quarterly_reports.
       if \<not> truthy quarterly_reports
       then Inr (error_doc ''No quarterly cash flow data available'')
       else ebind (find_quarterly_report quarterly_reports fiscal_year fiscal_quarter)
         (\<lambda>found. case found of
            None \<Rightarrow> Inr (no_data_found_doc symbol fiscal_year fiscal_quarter)
          | Some target_period \<Rightarrow>
              if \<not> truthy target_period
              then Inr (no_data_found_doc symbol fiscal_year fiscal_quarter)
              else free_cash_flow_result symbol fiscal_year fiscal_quarter target_period))"

definition get_company_free_cash_flow ::
  "world \<Rightarrow> string \<Rightarrow> int \<Rightarrow> int \<Rightarrow> (pyerror + json) \<times> calls" where
  "get_company_free_cash_flow w company_symbol fiscal_year fiscal_quarter =
     (let symbol = py_upper company_symbol in
      if symbol \<notin> set VALID_SYMBOLS then (Inr (invalid_symbol_doc VALID_SYMBOLS), [])
      else if fiscal_quarter \<notin> set [1, 2, 3, 4] then (Inr invalid_quarter_doc, [])
      else
        (case fetch_alpha_vantage w ''CASH_FLOW'' symbol of
           (fetched, made) \<Rightarrow>
             (case ebind fetched (free_cash_flow_from_data symbol fiscal_year fiscal_quarter) of
                Inl e \<Rightarrow> (Inr (handle_exception w e), made)
              | Inr doc \<Rightarrow> (Inr doc, made))))"

section \<open>The trigger handlers: \<^verbatim>\<open>src/function_app.py\<close>\<close>

text \<open>
  The handler receives the trigger's \<open>context\<close>: a JSON text still to be decoded, or an
  object.
\<close>

datatype trigger_context = ContextStr string | ContextObj json

text \<open>\<open>x.upper()\<close> on a decoded value: only a string has the method.\<close>

fun py_upper_json :: "json \<Rightarrow> pyerror + string" where
  "py_upper_json (JStr s) = Inr (py_upper s)"
| "py_upper_json _ = Inl AttributeError"

text \<open>
  The first statements of a handler, which stand before its \<open>try\<close>: decoding the context
  and reading \<open>company_symbol\<close>, \<open>fiscal_year\<close> and \<open>fiscal_quarter\<close>.
\<close>

definition read_arguments :: "world \<Rightarrow> trigger_context \<Rightarrow> pyerror + (string \<times> int \<times> int)" where
  "read_arguments w ctx =
     ebind (case ctx of ContextStr s \<Rightarrow> json_loads w s | ContextObj v \<Rightarrow> Inr v) (\<lambda>content.
     ebind (py_get content ''arguments'' (JObj [])) (\<lambda>args.
     ebind (ebind (py_get args ''company_symbol'' (JStr ''MSFT'')) py_upper_json) (\<lambda>symbol.
     ebind (ebind (py_get args ''fiscal_year'' (JInt 2024)) py_int) (\<lambda>fiscal_year.
     ebind (ebind (py_get args ''fiscal_quarter'' (JInt 4)) py_int) (\<lambda>fiscal_quarter.
       Inr (symbol, fiscal_year, fiscal_quarter))))))"

definition get_env :: "world \<Rightarrow> pyerror + string" where
  "get_env w =
     (case env_api_key w of
        None \<Rightarrow> Inl RuntimeError
      | Some k \<Rightarrow> if k = [] then Inl RuntimeError else Inr k)"

text \<open>
  The \<open>if\<close>/\<open>elif\<close> chain inside the handlers' loop: the quarter it assigns, or \<open>None\<close>
  for its \<open>continue\<close>.
\<close>

definition inline_quarter :: "int \<Rightarrow> int \<Rightarrow> int option" where
  "inline_quarter fiscal_quarter report_month =
     (if fiscal_quarter = 1 \<and> report_month \<in> set [9, 10] then Some 1
      else if fiscal_quarter = 2 \<and> report_month \<in> set [12, 1] then Some 2
      else if fiscal_quarter = 3 \<and> report_month \<in> set [3, 4] then Some 3
      else if fiscal_quarter = 4 \<and> report_month \<in> set [6, 7] then Some 4
      else None)"

text \<open>The handlers' loop; \<open>Inr (Some report)\<close> is its \<open>break\<close>.\<close>

fun inline_scan :: "json list \<Rightarrow> int \<Rightarrow> int \<Rightarrow> pyerror + json option" where
  "inline_scan [] fiscal_year fiscal_quarter = Inr None"
| "inline_scan (report # rest) fiscal_year fiscal_quarter =
     (case py_get report ''fiscalDateEnding'' (JStr '''') of
        Inl e \<Rightarrow> Inl e
      | Inr fiscal_date \<Rightarrow> (case py_slice fiscal_date 0 4 of
        Inl e \<Rightarrow> Inl e
      | Inr ys \<Rightarrow> (case py_int ys of
        Inl e \<Rightarrow> Inl e
      | Inr report_year \<Rightarrow> (case py_slice fiscal_date 5 7 of
        Inl e \<Rightarrow> Inl e
      | Inr ms \<Rightarrow> (case py_int ms of
        Inl e \<Rightarrow> Inl e
      | Inr report_month \<Rightarrow>
          (case inline_quarter fiscal_quarter report_month of
             None \<Rightarrow> inline_scan rest fiscal_year fiscal_quarter
           | Some report_quarter \<Rightarrow>
               if report_year = fiscal_year \<and> report_quarter = fiscal_quarter
               then Inr (Some report)
               else inline_scan rest fiscal_year fiscal_quarter))))))"

text \<open>
  The loop and the fallback that follows it. \<open>Inr None\<close> is the branch that returns the
  "no data" document; the fallback logs the first report's date, which reads it with \<open>get\<close>.
\<close>

definition inline_find :: "json \<Rightarrow> int \<Rightarrow> int \<Rightarrow> pyerror + json option" where
  "inline_find quarterly_reports fiscal_year fiscal_quarter =
     ebind (py_iter quarterly_reports) (\<lambda>rs.
     ebind (inline_scan rs fiscal_year fiscal_quarter) (\<lambda>found.
       if (case found of None \<Rightarrow> True | Some target_period \<Rightarrow> \<not> truthy target_period)
       then
         if truthy quarterly_reports
         then ebind (py_index0 quarterly_reports) (\<lambda>target_period.
              ebind (py_get target_period ''fiscalDateEnding'' JNull) (\<lambda>logged.
                Inr (Some target_period)))
         else Inr None
       else Inr found))"

definition fa_error_doc :: "world \<Rightarrow> pyerror \<Rightarrow> json" where
  "fa_error_doc w e =
     JObj [(''status'', JStr ''error''),
           (''message'', JStr (exc_str w e)),
           (''note'', JStr ''Make sure ALPHAVANTAGE_API_KEY is configured in your .env file'')]"

definition fa_revenue_result :: "string \<Rightarrow> int \<Rightarrow> int \<Rightarrow> json \<Rightarrow> pyerror + json" where
  "fa_revenue_result symbol fiscal_year fiscal_quarter target_period =
     ebind (py_get target_period ''totalRevenue'' (JStr ''0'')) (\<lambda>revenue_str.
     ebind (revenue_millions revenue_str) (\<lambda>millions.
     ebind (py_get target_period ''fiscalDateEnding'' JNull) (\<lambda>fiscal_date_ending.
       Inr (JObj
         [(''company'', JStr symbol),
          (''fiscal_year'', JInt fiscal_year),
          (''fiscal_quarter'', JInt fiscal_quarter),
          (''fiscal_date_ending'', fiscal_date_ending),
          (''total_revenue_usd_millions'', num_json millions),
          (''currency'', JStr ''USD''),
          (''data_source'', JStr ''Alpha Vantage''),
          (''raw_revenue'', revenue_str)]))))"

text \<open>
  The body of a handler's \<open>try\<close>: the key, the request, the matching, the result. The two
  handlers differ in the upstream function, the "no data" message and the result builder.
\<close>

definition fa_try_body ::
  "world \<Rightarrow> string \<Rightarrow> string \<Rightarrow> (json \<Rightarrow> pyerror + json) \<Rightarrow> string \<Rightarrow> int \<Rightarrow> int
     \<Rightarrow> (pyerror + json) \<times> calls" where
  "fa_try_body w function no_data build symbol fiscal_year fiscal_quarter =
     (case get_env w of
        Inl e \<Rightarrow> (Inl e, [])
      | Inr api_key \<Rightarrow>
          (ebind (http_get_json w function symbol api_key) (\<lambda>data.
           ebind (py_get data ''quarterlyReports'' (JArr [])) (\<lambda>quarterly_reports.
           ebind (inline_find quarterly_reports fiscal_year fiscal_quarter) (\<lambda>found.
             case found of
               None \<Rightarrow> Inr (error_doc no_data)
             | Some target_period \<Rightarrow> build target_period))),
           [(function, symbol)]))"

definition fa_handler ::
  "world \<Rightarrow> string \<Rightarrow> string \<Rightarrow> (string \<Rightarrow> int \<Rightarrow> int \<Rightarrow> json \<Rightarrow> pyerror + json)
     \<Rightarrow> trigger_context \<Rightarrow> (pyerror + json) \<times> calls" where
  "fa_handler w function no_data result ctx =
     (case read_arguments w ctx of
        Inl e \<Rightarrow> (Inl e, [])
      | Inr (symbol, fiscal_year, fiscal_quarter) \<Rightarrow>
          if symbol \<notin> set [''MSFT'', ''TSLA'', ''NVDA'']
          then (Inr (invalid_symbol_doc [''MSFT'', ''TSLA'', ''NVDA'']), [])
          else if fiscal_quarter \<notin> set [1, 2, 3, 4] then (Inr invalid_quarter_doc, [])
          else
            (case fa_try_body w function no_data (result symbol fiscal_year fiscal_quarter)
                    symbol fiscal_year fiscal_quarter of
               (Inl e, made) \<Rightarrow> (Inr (fa_error_doc w e), made)
             | (Inr doc, made) \<Rightarrow> (Inr doc, made)))"

definition fa_get_company_revenue :: "world \<Rightarrow> trigger_context \<Rightarrow> (pyerror + json) \<times> calls" where
  "fa_get_company_revenue w ctx =
     fa_handler w ''INCOME_STATEMENT'' ''No quarterly data available'' fa_revenue_result ctx"

definition fa_get_company_free_cash_flow ::
  "world \<Rightarrow> trigger_context \<Rightarrow> (pyerror + json) \<times> calls" where
  "fa_get_company_free_cash_flow w ctx =
     fa_handler w ''CASH_FLOW'' ''No quarterly cash flow data available''
       free_cash_flow_result ctx"

section \<open>Predicates on report records\<close>

text \<open>
  The year and the month the matchers read from a date text: \<open>int(s[:4])\<close> and
  \<open>int(s[5:7])\<close>, when both succeed.
\<close>

definition period_of :: "string \<Rightarrow> (int \<times> int) option" where
  "period_of s =
     (case py_int_str (take 4 s) of
        Inl e \<Rightarrow> None
      | Inr y \<Rightarrow> (case py_int_str (take 2 (drop 5 s)) of Inl e \<Rightarrow> None | Inr m \<Rightarrow> Some (y, m)))"

text \<open>The date of a record, when the record is a dict and the date a text.\<close>

definition date_text :: "json \<Rightarrow> string option" where
  "date_text report =
     (case report of
        JObj kvs \<Rightarrow>
          (case map_of kvs ''fiscalDateEnding'' of
             Some (JStr s) \<Rightarrow> Some s
           | _ \<Rightarrow> None)
      | _ \<Rightarrow> None)"

text \<open>
  An exact match for a requested period: a dict whose \<open>fiscalDateEnding\<close> is a text of
  at least 7 characters, whose year is the requested one and whose month
  \<open>map_month_to_quarter\<close> maps to the requested quarter.
\<close>

definition exact_match :: "json \<Rightarrow> int \<Rightarrow> int \<Rightarrow> bool" where
  "exact_match report fiscal_year fiscal_quarter =
     (case date_text report of
        None \<Rightarrow> False
      | Some s \<Rightarrow>
          7 \<le> length s \<and>
          (case period_of s of
             None \<Rightarrow> False
           | Some (y, m) \<Rightarrow> y = fiscal_year \<and> map_month_to_quarter m = Some fiscal_quarter))"

text \<open>
  A record that \<open>find_quarterly_report\<close> can examine without an exception: a dict whose
  date is absent, or has no truth value, or is shorter than 7, or is a text whose year and
  month are integers.
\<close>

definition examinable :: "json \<Rightarrow> bool" where
  "examinable report =
     (case report of
        JObj kvs \<Rightarrow>
          (case map_of kvs ''fiscalDateEnding'' of
             None \<Rightarrow> True
           | Some d \<Rightarrow>
               \<not> truthy d \<or>
               (case d of
                  JStr s \<Rightarrow> length s < 7 \<or> period_of s \<noteq> None
                | JArr xs \<Rightarrow> length xs < 7
                | JObj es \<Rightarrow> length es < 7
                | _ \<Rightarrow> False))
      | _ \<Rightarrow> False)"

text \<open>A dict whose date is absent, or a text shorter than 7 characters.\<close>

definition absent_or_short :: "json \<Rightarrow> bool" where
  "absent_or_short report =
     (case report of
        JObj kvs \<Rightarrow>
          (case map_of kvs ''fiscalDateEnding'' of
             None \<Rightarrow> True
           | Some (JStr s) \<Rightarrow> length s < 7
           | _ \<Rightarrow> False)
      | _ \<Rightarrow> False)"

text \<open>A dict whose date is a text of at least 7 characters.\<close>

definition long_date :: "json \<Rightarrow> bool" where
  "long_date report = (case date_text report of None \<Rightarrow> False | Some s \<Rightarrow> 7 \<le> length s)"


section \<open>An example invocation\<close>

text \<open>
  An upstream that holds one report, for the period ending 2023-12-31, and a process
  environment with a key.
\<close>

definition example_report :: json where
  "example_report =
     JObj [(''fiscalDateEnding'', JStr ''2023-12-31''), (''totalRevenue'', JStr ''5000000'')]"

definition example_world :: world where
  "example_world =
     \<lparr>env_api_key = Some ''k'',
      http_get_json = (\<lambda>function symbol api_key.
         Inr (JObj [(''quarterlyReports'', JArr [example_report])])),
      exc_str = (\<lambda>e. []),
      json_loads = (\<lambda>s. Inl ValueError)\<rparr>"

section \<open>Properties\<close>

subsection \<open>Rounding\<close>

text \<open>\<open>pow2_nat\<close> and \<open>pow2\<close> are the powers of two.\<close>

lemma pow2_nat_eq: "pow2_nat n = 2 ^ nat n"
proof (induction n rule: pow2_nat.induct)
  case (1 n)
  show ?case
  proof (cases "n \<le> 0")
    case True
    then show ?thesis by (simp add: pow2_nat.simps [of n])
  next
    case False
    then have h: "pow2_nat (n div 2) = 2 ^ nat (n div 2)"
      using 1 by (cases "even n") auto
    show ?thesis
    proof (cases "even n")
      case True
      with False have "pow2_nat n = 2 ^ nat (n div 2) * 2 ^ nat (n div 2)"
        by (simp add: pow2_nat.simps [of n] h)
      also have "\<dots> = 2 ^ (nat (n div 2) + nat (n div 2))"
        by (simp add: power_add)
      also from True False have "nat (n div 2) + nat (n div 2) = nat n"
        by (auto elim: evenE)
      finally show ?thesis .
    next
      case odd: False
      with False have "pow2_nat n = 2 * (2 ^ nat (n div 2) * 2 ^ nat (n div 2))"
        by (simp add: pow2_nat.simps [of n] h)
      also have "\<dots> = 2 ^ Suc (nat (n div 2) + nat (n div 2))"
        by (simp add: power_add)
      also from odd False have "Suc (nat (n div 2) + nat (n div 2)) = nat n"
        by (auto elim: oddE)
      finally show ?thesis .
    qed
  qed
qed

lemma pow2_eq: "pow2 e = (if 0 \<le> e then 2 ^ nat e else 1 / 2 ^ nat (- e))"
  by (simp add: pow2_def pow2_nat_eq)

lemma round_half_even_nearest: "\<bar>q - of_int (round_half_even q)\<bar> \<le> 1 / 2"
proof -
  have "0 \<le> q - of_int \<lfloor>q\<rfloor>" and "q - of_int \<lfloor>q\<rfloor> < 1"
    by linarith+
  then show ?thesis
    by (auto simp: round_half_even_def Let_def)
qed

lemma round_half_even_tie:
  "q - of_int \<lfloor>q\<rfloor> = 1 / 2 \<Longrightarrow> even (round_half_even q)"
  by (simp add: round_half_even_def Let_def)

lemma double_of_rat_0: "double_of_rat 0 = Finite 0"
  by (simp add: double_of_rat_def)

lemma round_half_even_0: "round_half_even 0 = 0"
  by (simp add: round_half_even_def)

lemma py_round2_0: "py_round2 (Finite 0) = Finite 0"
  by (simp add: round_half_even_0 double_of_rat_0)

subsection \<open>The metric extractors\<close>

lemma ebind_simps [simp]:
  "ebind (Inl e) f = Inl e"
  "ebind (Inr x) f = f x"
  by (simp_all add: ebind_def)

lemma float_of_zero_text: "py_float_str ''0'' = Inr (Finite 0)"
  by code_simp

lemma present_zero_text: "present (JStr ''0'')"
  by (simp add: present_def)

lemma metric_field_absent:
  "map_of kvs k = None \<Longrightarrow> metric_field (JObj kvs) k = Inr (PyFloat (Finite 0))"
  by (simp add: metric_field_def metric_number_def present_zero_text float_of_zero_text)

lemma metric_field_None_text:
  "map_of kvs k = Some (JStr ''None'') \<Longrightarrow> metric_field (JObj kvs) k = Inr PyZero"
  by (simp add: metric_field_def metric_number_def present_def)

lemma free_cash_flow_values_fields:
  "free_cash_flow_values r =
     ebind (metric_field r ''operatingCashflow'') (\<lambda>x.
     ebind (metric_field r ''capitalExpenditures'') (\<lambda>y.
       Inr (py_round2 (py_truediv (py_sub x (py_abs y)) 1000000),
            py_round2 (py_truediv x 1000000),
            py_round2 (py_truediv (py_abs y) 1000000))))"
proof (cases r)
  case (JObj kvs)
  then show ?thesis
    by (cases "metric_number (case map_of kvs ''operatingCashflow'' of None \<Rightarrow> JStr ''0'' | Some v \<Rightarrow> v)")
       (simp_all add: free_cash_flow_values_def metric_field_def Let_def)
qed (simp_all add: free_cash_flow_values_def metric_field_def)

lemma as_float_abs: "as_float y = Finite b \<Longrightarrow> as_float (py_abs y) = Finite \<bar>b\<bar>"
  by (cases y) auto

lemma as_float_sub_abs:
  "as_float x = Finite a \<Longrightarrow> as_float y = Finite b
   \<Longrightarrow> as_float (py_sub x (py_abs y)) = double_of_rat (a - \<bar>b\<bar>)"
  by (cases x; cases y) (auto simp: double_of_rat_0)

lemma millions_finite:
  "as_float x = Finite a \<Longrightarrow> py_truediv x 1000000 = double_of_rat (a / 1000000)"
  by (simp add: py_truediv_def)

lemma free_cash_flow_values_finite:
  assumes "metric_field r ''operatingCashflow'' = Inr x" and "as_float x = Finite a"
    and "metric_field r ''capitalExpenditures'' = Inr y" and "as_float y = Finite b"
  shows "free_cash_flow_values r =
           Inr (py_round2 (fdiv_pos (double_of_rat (a - \<bar>b\<bar>)) 1000000),
                py_round2 (double_of_rat (a / 1000000)),
                py_round2 (double_of_rat (\<bar>b\<bar> / 1000000)))"
proof -
  from assms(2,4) have "py_truediv (py_sub x (py_abs y)) 1000000
      = fdiv_pos (double_of_rat (a - \<bar>b\<bar>)) 1000000"
    by (simp add: py_truediv_def as_float_sub_abs)
  moreover from assms(4) have "py_truediv (py_abs y) 1000000 = double_of_rat (\<bar>b\<bar> / 1000000)"
    by (simp add: millions_finite as_float_abs)
  ultimately show ?thesis
    using assms by (simp add: free_cash_flow_values_fields millions_finite)
qed

lemma free_cash_flow_result_document:
  assumes "free_cash_flow_values (JObj kvs) = Inr (f, o', c)"
  shows "free_cash_flow_result symbol fy fq (JObj kvs) =
     Inr (JObj
       [(''company'', JStr symbol),
        (''fiscal_year'', JInt fy),
        (''fiscal_quarter'', JInt fq),
        (''fiscal_date_ending'',
           case map_of kvs ''fiscalDateEnding'' of None \<Rightarrow> JNull | Some d \<Rightarrow> d),
        (''free_cash_flow_usd_millions'', JFloat f),
        (''operating_cash_flow_usd_millions'', JFloat o'),
        (''capital_expenditures_usd_millions'', JFloat c),
        (''currency'', JStr ''USD''),
        (''data_source'', JStr ''Alpha Vantage''),
        (''calculation'', JStr ''Operating Cash Flow - Capital Expenditures'')])"
  using assms by (simp add: free_cash_flow_result_def)

lemma spec_example_values:
  "free_cash_flow_values
     (JObj [(''operatingCashflow'', JStr ''500000000''),
            (''capitalExpenditures'', JStr ''-100000000'')])
   = Inr (Finite 400, Finite 500, Finite 100)"
  by code_simp

lemma tie_example_values:
  "free_cash_flow_values (JObj [(''operatingCashflow'', JStr ''-2675000'')])
   = Inr (Finite (- 1503076375634903 / 562949953421312),
          Finite (- 1503076375634903 / 562949953421312),
          Finite 0)"
  by code_simp

text \<open>
  The quotient is rounded as a float, not as a decimal: 64727.015 lies below the float
  nearest to it, so \<open>"64727015000"\<close> gives 64727.01; and an infinite reading stays
  infinite.
\<close>

lemma revenue_of_64727015000:
  "revenue_millions (JStr ''64727015000'') = Inr (PyFloat (double_of_rat (6472701 / 100)))"
  by code_simp

lemma inf_example:
  "free_cash_flow_values (JObj [(''operatingCashflow'', JStr ''inf'')])
     = Inr (PosInf, PosInf, Finite 0)"
  by code_simp

lemma round_one_eighth:
  "py_round2 (Finite (1 / 8)) = Finite (1080863910568919 / 9007199254740992)"
  by code_simp

text \<open>
  Claim C1. On a matched report the free-cash-flow extractor computes
  \<open>operating_cash_flow - abs(capital_expenditures)\<close>, divides by 1,000,000 and rounds to
  two decimals, and reports operating cash flow and the absolute capital expenditures the
  same way, and these three values are the ones the result document carries; a field that
  is absent or the text \<open>None\<close> reads as zero; and \<open>operatingCashflow = "500000000"\<close>,
  \<open>capitalExpenditures = "-100000000"\<close> give 400.0, 500.0 and 100.0. Every step is a float
  operation: with \<open>operatingCashflow = "-2675000"\<close> the quotient is the float just above
  -2.675, which rounds to the float that prints as -2.67, and 0.125 rounds to the float
  that prints as 0.12. The formula is stated first on the readings of the two fields, then
  for finite readings with every rounding written out.
\<close>

theorem free_cash_flow_extraction:
  "(\<forall>r x y.
      metric_field r ''operatingCashflow'' = Inr x
      \<and> metric_field r ''capitalExpenditures'' = Inr y
      \<longrightarrow> free_cash_flow_values r =
            Inr (py_round2 (py_truediv (py_sub x (py_abs y)) 1000000),
                 py_round2 (py_truediv x 1000000),
                 py_round2 (py_truediv (py_abs y) 1000000)))
   \<and> (\<forall>r x y a b.
      metric_field r ''operatingCashflow'' = Inr x \<and> as_float x = Finite a
      \<and> metric_field r ''capitalExpenditures'' = Inr y \<and> as_float y = Finite b
      \<longrightarrow> free_cash_flow_values r =
            Inr (py_round2 (fdiv_pos (double_of_rat (a - \<bar>b\<bar>)) 1000000),
                 py_round2 (double_of_rat (a / 1000000)),
                 py_round2 (double_of_rat (\<bar>b\<bar> / 1000000))))
   \<and> (\<forall>kvs f o' c symbol fy fq.
        free_cash_flow_values (JObj kvs) = Inr (f, o', c)
        \<longrightarrow> free_cash_flow_result symbol fy fq (JObj kvs) =
              Inr (JObj
                [(''company'', JStr symbol),
                 (''fiscal_year'', JInt fy),
                 (''fiscal_quarter'', JInt fq),
                 (''fiscal_date_ending'',
                    case map_of kvs ''fiscalDateEnding'' of None \<Rightarrow> JNull | Some d \<Rightarrow> d),
                 (''free_cash_flow_usd_millions'', JFloat f),
                 (''operating_cash_flow_usd_millions'', JFloat o'),
                 (''capital_expenditures_usd_millions'', JFloat c),
                 (''currency'', JStr ''USD''),
                 (''data_source'', JStr ''Alpha Vantage''),
                 (''calculation'', JStr ''Operating Cash Flow - Capital Expenditures'')]))
   \<and> (\<forall>kvs k. map_of kvs k = None \<or> map_of kvs k = Some (JStr ''None'')
        \<longrightarrow> (\<exists>x. metric_field (JObj kvs) k = Inr x \<and> as_float x = Finite 0))
   \<and> free_cash_flow_values
        (JObj [(''operatingCashflow'', JStr ''500000000''),
               (''capitalExpenditures'', JStr ''-100000000'')])
      = Inr (Finite 400, Finite 500, Finite 100)
   \<and> free_cash_flow_values (JObj [(''operatingCashflow'', JStr ''-2675000'')])
      = Inr (Finite (- 1503076375634903 / 562949953421312),
             Finite (- 1503076375634903 / 562949953421312),
             Finite 0)
   \<and> py_round2 (Finite (1 / 8)) = Finite (1080863910568919 / 9007199254740992)"
proof (intro conjI allI impI)
  fix r x y
  assume "metric_field r ''operatingCashflow'' = Inr x
      \<and> metric_field r ''capitalExpenditures'' = Inr y"
  then show "free_cash_flow_values r =
            Inr (py_round2 (py_truediv (py_sub x (py_abs y)) 1000000),
                 py_round2 (py_truediv x 1000000),
                 py_round2 (py_truediv (py_abs y) 1000000))"
    by (simp add: free_cash_flow_values_fields)
next
  fix r x y a b
  assume "metric_field r ''operatingCashflow'' = Inr x \<and> as_float x = Finite a
      \<and> metric_field r ''capitalExpenditures'' = Inr y \<and> as_float y = Finite b"
  then show "free_cash_flow_values r =
            Inr (py_round2 (fdiv_pos (double_of_rat (a - \<bar>b\<bar>)) 1000000),
                 py_round2 (double_of_rat (a / 1000000)),
                 py_round2 (double_of_rat (\<bar>b\<bar> / 1000000)))"
    by (intro free_cash_flow_values_finite [where x = x and y = y]) simp_all
next
  fix kvs f o' c symbol fy fq
  assume "free_cash_flow_values (JObj kvs) = Inr (f, o', c)"
  then show "free_cash_flow_result symbol fy fq (JObj kvs) =
              Inr (JObj
                [(''company'', JStr symbol),
                 (''fiscal_year'', JInt fy),
                 (''fiscal_quarter'', JInt fq),
                 (''fiscal_date_ending'',
                    case map_of kvs ''fiscalDateEnding'' of None \<Rightarrow> JNull | Some d \<Rightarrow> d),
                 (''free_cash_flow_usd_millions'', JFloat f),
                 (''operating_cash_flow_usd_millions'', JFloat o'),
                 (''capital_expenditures_usd_millions'', JFloat c),
                 (''currency'', JStr ''USD''),
                 (''data_source'', JStr ''Alpha Vantage''),
                 (''calculation'', JStr ''Operating Cash Flow - Capital Expenditures'')])"
    by (rule free_cash_flow_result_document)
next
  fix kvs :: "(string \<times> json) list" and k
  assume "map_of kvs k = None \<or> map_of kvs k = Some (JStr ''None'')"
  then show "\<exists>x. metric_field (JObj kvs) k = Inr x \<and> as_float x = Finite 0"
    by (auto simp: metric_field_absent metric_field_None_text)
qed (rule spec_example_values tie_example_values round_one_eighth)+

lemma example_2500000_fields:
  "metric_field (JObj [(''operatingCashflow'', JStr ''2500000'')]) ''operatingCashflow''
     = Inr (PyFloat (Finite 2500000))"
  "metric_field (JObj [(''operatingCashflow'', JStr ''2500000'')]) ''capitalExpenditures''
     = Inr (PyFloat (Finite 0))"
  by code_simp+

lemma example_2500000_millions:
  "py_round2 (fdiv_pos (double_of_rat (2500000 - \<bar>0\<bar>)) 1000000) = Finite (5 / 2)"
  "py_round2 (double_of_rat (2500000 / 1000000)) = Finite (5 / 2)"
  "py_round2 (double_of_rat (\<bar>0\<bar> / 1000000)) = Finite 0"
  by code_simp+

theorem free_cash_flow_extraction_witness:
  "free_cash_flow_values (JObj [(''operatingCashflow'', JStr ''2500000'')])
     = Inr (Finite (5 / 2), Finite (5 / 2), Finite 0)
   \<and> free_cash_flow_result ''MSFT'' 2024 4 (JObj [(''operatingCashflow'', JStr ''2500000'')])
     = Inr (JObj
         [(''company'', JStr ''MSFT''),
          (''fiscal_year'', JInt 2024),
          (''fiscal_quarter'', JInt 4),
          (''fiscal_date_ending'', JNull),
          (''free_cash_flow_usd_millions'', JFloat (Finite (5 / 2))),
          (''operating_cash_flow_usd_millions'', JFloat (Finite (5 / 2))),
          (''capital_expenditures_usd_millions'', JFloat (Finite 0)),
          (''currency'', JStr ''USD''),
          (''data_source'', JStr ''Alpha Vantage''),
          (''calculation'', JStr ''Operating Cash Flow - Capital Expenditures'')])
   \<and> (\<exists>x. metric_field (JObj [(''operatingCashflow'', JStr ''None'')]) ''operatingCashflow'' = Inr x
          \<and> as_float x = Finite 0)"
proof -
  let ?r = "JObj [(''operatingCashflow'', JStr ''2500000'')]"
  note c = free_cash_flow_extraction
  from c have "metric_field ?r ''operatingCashflow'' = Inr (PyFloat (Finite 2500000))
      \<and> as_float (PyFloat (Finite 2500000)) = Finite 2500000
      \<and> metric_field ?r ''capitalExpenditures'' = Inr (PyFloat (Finite 0))
      \<and> as_float (PyFloat (Finite 0)) = Finite 0
      \<longrightarrow> free_cash_flow_values ?r =
            Inr (py_round2 (fdiv_pos (double_of_rat (2500000 - \<bar>0\<bar>)) 1000000),
                 py_round2 (double_of_rat (2500000 / 1000000)),
                 py_round2 (double_of_rat (\<bar>0\<bar> / 1000000)))"
    by blast
  then have v: "free_cash_flow_values ?r = Inr (Finite (5 / 2), Finite (5 / 2), Finite 0)"
    unfolding example_2500000_millions using example_2500000_fields by simp
  from c have "free_cash_flow_values ?r = Inr (Finite (5 / 2), Finite (5 / 2), Finite 0)
      \<longrightarrow> free_cash_flow_result ''MSFT'' 2024 4 ?r =
          Inr (JObj
            [(''company'', JStr ''MSFT''),
             (''fiscal_year'', JInt 2024),
             (''fiscal_quarter'', JInt 4),
             (''fiscal_date_ending'',
                case map_of [(''operatingCashflow'', JStr ''2500000'')] ''fiscalDateEnding'' of
                  None \<Rightarrow> JNull | Some d \<Rightarrow> d),
             (''free_cash_flow_usd_millions'', JFloat (Finite (5 / 2))),
             (''operating_cash_flow_usd_millions'', JFloat (Finite (5 / 2))),
             (''capital_expenditures_usd_millions'', JFloat (Finite 0)),
             (''currency'', JStr ''USD''),
             (''data_source'', JStr ''Alpha Vantage''),
             (''calculation'', JStr ''Operating Cash Flow - Capital Expenditures'')])"
    by blast
  with v have d: "free_cash_flow_result ''MSFT'' 2024 4 ?r =
          Inr (JObj
            [(''company'', JStr ''MSFT''),
             (''fiscal_year'', JInt 2024),
             (''fiscal_quarter'', JInt 4),
             (''fiscal_date_ending'', JNull),
             (''free_cash_flow_usd_millions'', JFloat (Finite (5 / 2))),
             (''operating_cash_flow_usd_millions'', JFloat (Finite (5 / 2))),
             (''capital_expenditures_usd_millions'', JFloat (Finite 0)),
             (''currency'', JStr ''USD''),
             (''data_source'', JStr ''Alpha Vantage''),
             (''calculation'', JStr ''Operating Cash Flow - Capital Expenditures'')])"
    by simp
  from c
  have "\<exists>x. metric_field (JObj [(''operatingCashflow'', JStr ''None'')]) ''operatingCashflow'' = Inr x
          \<and> as_float x = Finite 0"
    by simp
  with v d show ?thesis by simp
qed

lemma revenue_absent:
  "map_of kvs ''totalRevenue'' = None
   \<Longrightarrow> total_revenue_usd_millions (JObj kvs) = Inr (PyFloat (Finite 0))"
  by (simp add: total_revenue_usd_millions_def revenue_millions_def present_zero_text
      float_of_zero_text py_truediv_def double_of_rat_0 round_half_even_0)

lemma revenue_None_text:
  "map_of kvs ''totalRevenue'' = Some (JStr ''None'')
   \<Longrightarrow> total_revenue_usd_millions (JObj kvs) = Inr PyZero"
  by (simp add: total_revenue_usd_millions_def revenue_millions_def present_def)

lemma revenue_of_123000000:
  "total_revenue_usd_millions (JObj [(''totalRevenue'', JStr ''123000000'')])
     = Inr (PyFloat (Finite 123))"
  by code_simp

text \<open>
  Claim C3, as amended. Revenue extraction reads an absent \<open>totalRevenue\<close>, or the text
  \<open>None\<close>, as zero; and \<open>totalRevenue = "123000000"\<close> gives 123.0 (123,000,000 divided by
  1,000,000), not 0.12.
\<close>

theorem revenue_extraction:
  "(\<forall>kvs. map_of kvs ''totalRevenue'' = None \<or> map_of kvs ''totalRevenue'' = Some (JStr ''None'')
      \<longrightarrow> (\<exists>v. total_revenue_usd_millions (JObj kvs) = Inr v \<and> as_float v = Finite 0))
   \<and> total_revenue_usd_millions (JObj [(''totalRevenue'', JStr ''123000000'')])
       = Inr (PyFloat (Finite 123))"
  by (auto simp: revenue_absent revenue_None_text revenue_of_123000000)

theorem revenue_extraction_witness:
  "\<exists>v. total_revenue_usd_millions (JObj [(''totalRevenue'', JStr ''None'')]) = Inr v
       \<and> as_float v = Finite 0"
  using revenue_extraction by simp

text \<open>The value the claim states for \<open>"123000000"\<close>, 0.12, is not what the code returns.\<close>

theorem revenue_not_0_12:
  "total_revenue_usd_millions (JObj [(''totalRevenue'', JStr ''123000000'')])
     \<noteq> Inr (PyFloat (Finite (12 / 100)))"
  by (simp add: revenue_of_123000000)



lemma isl_ebind: "isl (ebind m f) \<longleftrightarrow> isl m \<or> (\<exists>x. m = Inr x \<and> isl (f x))"
  by (cases m) simp_all









subsection \<open>The quarter mapper\<close>

lemma inline_quarter_eq:
  "inline_quarter fq m = (if map_month_to_quarter m = Some fq then Some fq else None)"
  by (auto simp: inline_quarter_def map_month_to_quarter_def)

text \<open>
  Claim C4. \<open>map_month_to_quarter\<close> maps months 9 and 10 to quarter 1, 12 and 1 to
  quarter 2, 3 and 4 to quarter 3, 6 and 7 to quarter 4, and months 2, 5, 8 and 11 to
  \<open>None\<close>. The \<open>if\<close>/\<open>elif\<close> chain of the trigger handlers assigns the requested
  quarter exactly to the months this table maps to it.
\<close>

theorem quarter_mapper_table:
  "map_month_to_quarter 9 = Some 1 \<and> map_month_to_quarter 10 = Some 1
   \<and> map_month_to_quarter 12 = Some 2 \<and> map_month_to_quarter 1 = Some 2
   \<and> map_month_to_quarter 3 = Some 3 \<and> map_month_to_quarter 4 = Some 3
   \<and> map_month_to_quarter 6 = Some 4 \<and> map_month_to_quarter 7 = Some 4
   \<and> map_month_to_quarter 2 = None \<and> map_month_to_quarter 5 = None
   \<and> map_month_to_quarter 8 = None \<and> map_month_to_quarter 11 = None
   \<and> (\<forall>fq m. inline_quarter fq m
                = (if map_month_to_quarter m = Some fq then Some fq else None))"
  by (simp add: inline_quarter_eq) (simp add: map_month_to_quarter_def)

subsection \<open>The report matcher of the standalone server\<close>

lemma quarter_nonzero: "map_month_to_quarter m = Some q \<Longrightarrow> q \<noteq> 0"
  by (auto simp: map_month_to_quarter_def split: if_splits)

lemma scan_step_text:
  "map_of kvs ''fiscalDateEnding'' = Some (JStr s) \<Longrightarrow> 7 \<le> length s \<Longrightarrow>
   scan_reports (JObj kvs # rest) fy fq =
     (case py_int_str (take 4 s) of
        Inl e \<Rightarrow> Inl e
      | Inr y \<Rightarrow>
          (case py_int_str (take 2 (drop 5 s)) of
             Inl e \<Rightarrow> Inl e
           | Inr m \<Rightarrow>
               if y = fy \<and> map_month_to_quarter m = Some fq then Inr (Some (JObj kvs))
               else scan_reports rest fy fq))"
  by (auto simp: quarter_nonzero split: sum.splits option.splits)

lemma scan_step_short:
  "map_of kvs ''fiscalDateEnding'' = Some (JStr s) \<Longrightarrow> length s < 7 \<Longrightarrow>
   scan_reports (JObj kvs # rest) fy fq = scan_reports rest fy fq"
  by simp

lemma scan_step_absent:
  "map_of kvs ''fiscalDateEnding'' = None \<Longrightarrow>
   scan_reports (JObj kvs # rest) fy fq = scan_reports rest fy fq"
  by simp

lemma date_text_Some:
  "date_text r = Some s \<longleftrightarrow> (\<exists>kvs. r = JObj kvs \<and> map_of kvs ''fiscalDateEnding'' = Some (JStr s))"
  by (cases r) (auto simp: date_text_def split: option.splits json.splits)

lemma scan_step_match:
  assumes "exact_match r fy fq"
  shows "scan_reports (r # rest) fy fq = Inr (Some r)"
proof -
  from assms obtain s y m where s: "date_text r = Some s" "7 \<le> length s"
    and p: "period_of s = Some (y, m)" and q: "y = fy" "map_month_to_quarter m = Some fq"
    by (auto simp: exact_match_def split: option.splits)
  from s(1) obtain kvs where r: "r = JObj kvs" "map_of kvs ''fiscalDateEnding'' = Some (JStr s)"
    by (auto simp: date_text_Some)
  from p have "py_int_str (take 4 s) = Inr y" "py_int_str (take 2 (drop 5 s)) = Inr m"
    by (auto simp: period_of_def split: sum.splits)
  with r s(2) q show ?thesis
    by (simp add: scan_step_text del: scan_reports.simps)
qed

lemma scan_step_skip:
  assumes "\<not> exact_match r fy fq" and "examinable r"
  shows "scan_reports (r # rest) fy fq = scan_reports rest fy fq"
proof -
  from assms(2) obtain kvs where r: "r = JObj kvs"
    by (auto simp: examinable_def split: json.splits)
  show ?thesis
  proof (cases "map_of kvs ''fiscalDateEnding''")
    case None
    with r show ?thesis by simp
  next
    case (Some d)
    show ?thesis
    proof (cases "truthy d")
      case False
      with r Some show ?thesis by simp
    next
      case True
      with assms(2) r Some
      consider (str) s where "d = JStr s" "length s < 7 \<or> period_of s \<noteq> None"
        | (arr) xs where "d = JArr xs" "length xs < 7"
        | (obj) es where "d = JObj es" "length es < 7"
        by (auto simp: examinable_def split: json.splits)
      then show ?thesis
      proof cases
        case str
        show ?thesis
        proof (cases "length s < 7")
          case True
          with r Some str show ?thesis by simp
        next
          case False
          with str obtain y m where p: "period_of s = Some (y, m)" by auto
          from False have len: "7 \<le> length s" by simp
          from assms(1) r Some str len p
          have "\<not> (y = fy \<and> map_month_to_quarter m = Some fq)"
            by (simp add: exact_match_def date_text_def)
          moreover from p have "py_int_str (take 4 s) = Inr y" "py_int_str (take 2 (drop 5 s)) = Inr m"
            by (auto simp: period_of_def split: sum.splits)
          ultimately show ?thesis
            using r Some str len by (auto simp: scan_step_text simp del: scan_reports.simps)
        qed
      next
        case arr
        with r Some True show ?thesis by simp
      next
        case obj
        with r Some True show ?thesis by simp
      qed
    qed
  qed
qed

lemma scan_reports_find:
  "\<forall>r \<in> set (takeWhile (\<lambda>r. \<not> exact_match r fy fq) reports). examinable r
   \<Longrightarrow> scan_reports reports fy fq = Inr (List.find (\<lambda>r. exact_match r fy fq) reports)"
proof (induction reports)
  case Nil
  show ?case by simp
next
  case (Cons r reports)
  show ?case
  proof (cases "exact_match r fy fq")
    case True
    then show ?thesis by (simp add: scan_step_match del: scan_reports.simps)
  next
    case False
    with Cons.prems have "examinable r"
      and "\<forall>x \<in> set (takeWhile (\<lambda>r. \<not> exact_match r fy fq) reports). examinable x"
      by simp_all
    with False Cons.IH show ?thesis
      by (simp add: scan_step_skip del: scan_reports.simps)
  qed
qed

lemma find_none_iff_empty:
  "find_quarterly_report (JArr reports) fy fq = Inr None \<longleftrightarrow> reports = []"
  by (cases reports)
     (auto simp: find_quarterly_report_def split: sum.splits option.splits)

text \<open>
  A record that cannot be examined makes the loop raise, and so does the matcher when
  such a record precedes the first exact match.
\<close>

lemma period_of_None:
  "period_of s = None \<Longrightarrow>
   isl (py_int_str (take 4 s)) \<or> isl (py_int_str (take 2 (drop 5 s)))"
  by (auto simp: period_of_def split: sum.splits)

lemma scan_raises_on_unexaminable:
  assumes "\<not> examinable r"
  shows "isl (scan_reports (r # rest) fy fq)"
proof (cases r)
  case (JObj kvs)
  show ?thesis
  proof (cases "map_of kvs ''fiscalDateEnding''")
    case None
    with assms JObj show ?thesis by (simp add: examinable_def)
  next
    case (Some d)
    with assms JObj have t: "truthy d" by (auto simp: examinable_def)
    show ?thesis
    proof (cases d)
      case (JStr s)
      with assms JObj Some have "7 \<le> length s"
        by (auto simp: examinable_def)
      moreover from assms JObj Some JStr have "period_of s = None"
        by (cases "period_of s") (auto simp: examinable_def)
      ultimately have "7 \<le> length s" and "period_of s = None"
        by simp_all
      with JObj Some JStr show ?thesis
        using period_of_None [of s]
        by (auto simp: scan_step_text simp del: scan_reports.simps split: sum.splits)
    next
      case (JArr xs)
      with assms JObj Some show ?thesis by (auto simp: examinable_def)
    next
      case (JObj es)
      with assms \<open>r = JObj kvs\<close> Some show ?thesis by (auto simp: examinable_def)
    qed (use t JObj Some in simp_all)
  qed
qed simp_all

lemma find_raises_on_unexaminable:
  "\<exists>r \<in> set (takeWhile (\<lambda>r. \<not> exact_match r fy fq) reports). \<not> examinable r
   \<Longrightarrow> isl (find_quarterly_report (JArr reports) fy fq)"
proof -
  have "\<exists>r \<in> set (takeWhile (\<lambda>r. \<not> exact_match r fy fq) reports). \<not> examinable r
        \<Longrightarrow> isl (scan_reports reports fy fq)"
  proof (induction reports)
    case Nil
    then show ?case by simp
  next
    case (Cons x reports)
    show ?case
    proof (cases "examinable x")
      case False
      then show ?thesis by (rule scan_raises_on_unexaminable)
    next
      case True
      from Cons.prems have n: "\<not> exact_match x fy fq"
        by (auto split: if_splits)
      with Cons.prems True
      have "\<exists>r \<in> set (takeWhile (\<lambda>r. \<not> exact_match r fy fq) reports). \<not> examinable r"
        by auto
      with Cons.IH n True show ?thesis
        by (simp add: scan_step_skip del: scan_reports.simps)
    qed
  qed
  moreover assume "\<exists>r \<in> set (takeWhile (\<lambda>r. \<not> exact_match r fy fq) reports). \<not> examinable r"
  ultimately show ?thesis
    by (auto simp: find_quarterly_report_def isl_def)
qed

text \<open>
  Claim C2, as amended. If every record that precedes the first exact match (every record,
  when there is none) can be examined without an exception, \<open>find_quarterly_report\<close>
  returns the first exact match in input order, and the first record of the list when
  there is no exact match. It returns \<open>None\<close> exactly when the list is empty. If some
  record that precedes the first exact match cannot be examined, it raises.
\<close>

theorem find_quarterly_report_first_match:
  "((\<forall>r \<in> set (takeWhile (\<lambda>r. \<not> exact_match r fy fq) reports). examinable r)
     \<longrightarrow> find_quarterly_report (JArr reports) fy fq =
           Inr (case List.find (\<lambda>r. exact_match r fy fq) reports of
                  Some r \<Rightarrow> Some r
                | None \<Rightarrow> (case reports of [] \<Rightarrow> None | r # rest \<Rightarrow> Some r)))
   \<and> (find_quarterly_report (JArr reports) fy fq = Inr None \<longleftrightarrow> reports = [])
   \<and> ((\<exists>r \<in> set (takeWhile (\<lambda>r. \<not> exact_match r fy fq) reports). \<not> examinable r)
     \<longrightarrow> isl (find_quarterly_report (JArr reports) fy fq))"
proof (intro conjI impI)
  assume "\<forall>r \<in> set (takeWhile (\<lambda>r. \<not> exact_match r fy fq) reports). examinable r"
  then have "scan_reports reports fy fq = Inr (List.find (\<lambda>r. exact_match r fy fq) reports)"
    by (rule scan_reports_find)
  then show "find_quarterly_report (JArr reports) fy fq =
           Inr (case List.find (\<lambda>r. exact_match r fy fq) reports of
                  Some r \<Rightarrow> Some r
                | None \<Rightarrow> (case reports of [] \<Rightarrow> None | r # rest \<Rightarrow> Some r))"
    by (cases reports) (auto simp: find_quarterly_report_def split: option.splits)
next
  show "find_quarterly_report (JArr reports) fy fq = Inr None \<longleftrightarrow> reports = []"
    by (rule find_none_iff_empty)
next
  assume "\<exists>r \<in> set (takeWhile (\<lambda>r. \<not> exact_match r fy fq) reports). \<not> examinable r"
  then show "isl (find_quarterly_report (JArr reports) fy fq)"
    by (rule find_raises_on_unexaminable)
qed

lemma june_2024_matches_q4:
  "exact_match (JObj [(''fiscalDateEnding'', JStr ''2024-06-30'')]) 2024 4"
  by code_simp
lemma march_2024_not_q4:
  "\<not> exact_match (JObj [(''fiscalDateEnding'', JStr ''2024-03-31'')]) 2024 4"
  by code_simp
lemma march_2024_examinable:
  "examinable (JObj [(''fiscalDateEnding'', JStr ''2024-03-31'')])"
  by code_simp

lemma quarter_text_not_examinable:
  "\<not> examinable (JObj [(''fiscalDateEnding'', JStr ''2024-Q2-30'')])"
  "\<not> exact_match (JObj [(''fiscalDateEnding'', JStr ''2024-Q2-30'')]) 2024 4"
  by code_simp+

theorem find_quarterly_report_first_match_witness:
  "find_quarterly_report
     (JArr [JObj [(''fiscalDateEnding'', JStr ''2024-03-31'')],
            JObj [(''fiscalDateEnding'', JStr ''2024-06-30'')]]) 2024 4
   = Inr (Some (JObj [(''fiscalDateEnding'', JStr ''2024-06-30'')]))
   \<and> isl (find_quarterly_report
         (JArr [JObj [(''fiscalDateEnding'', JStr ''2024-Q2-30'')],
                JObj [(''fiscalDateEnding'', JStr ''2024-06-30'')]]) 2024 4)"
  using find_quarterly_report_first_match
    [of 2024 4 "[JObj [(''fiscalDateEnding'', JStr ''2024-03-31'')],
                 JObj [(''fiscalDateEnding'', JStr ''2024-06-30'')]]"]
    find_quarterly_report_first_match
    [of 2024 4 "[JObj [(''fiscalDateEnding'', JStr ''2024-Q2-30'')],
                 JObj [(''fiscalDateEnding'', JStr ''2024-06-30'')]]"]
  by (simp add: june_2024_matches_q4 march_2024_not_q4 march_2024_examinable
      quarter_text_not_examinable)

text \<open>
  Claim C2 as stated fails: on a list whose only record has the date \<open>2024-6-30\<close>, the
  claim's answer is that record (as the match or as the fallback), but \<open>int("6-")\<close> raises
  \<open>ValueError\<close> and nothing is returned.
\<close>

theorem find_quarterly_report_raises:
  "find_quarterly_report (JArr [JObj [(''fiscalDateEnding'', JStr ''2024-6-30'')]]) 2024 4
   = Inl ValueError"
  by code_simp

lemma exact_not_absent_or_short: "exact_match r fy fq \<Longrightarrow> \<not> absent_or_short r"
  by (cases r)
     (auto simp: exact_match_def absent_or_short_def date_text_def split: option.splits json.splits)

lemma server_skips_absent_or_short:
  "absent_or_short r \<Longrightarrow> scan_reports (r # rest) fy fq = scan_reports rest fy fq"
  by (cases r) (auto simp: absent_or_short_def split: option.splits json.splits)

lemma scan_step_cases:
  "scan_reports (x # rest) fy fq = Inr (Some r)
   \<Longrightarrow> (r = x \<and> exact_match x fy fq) \<or> scan_reports rest fy fq = Inr (Some r)"
proof (cases x)
  case (JObj kvs)
  assume a: "scan_reports (x # rest) fy fq = Inr (Some r)"
  show ?thesis
  proof (cases "map_of kvs ''fiscalDateEnding''")
    case None
    with a JObj show ?thesis by simp
  next
    case (Some d)
    show ?thesis
    proof (cases d)
      case (JStr s)
      show ?thesis
      proof (cases "7 \<le> length s")
        case True
        with a JObj Some JStr show ?thesis
          by (auto simp: scan_step_text exact_match_def date_text_def period_of_def
                   simp del: scan_reports.simps split: sum.splits if_splits)
      next
        case False
        then have "length s < 7" by simp
        with a JObj Some JStr show ?thesis
          by (simp add: scan_step_short del: scan_reports.simps)
      qed
    qed (use a JObj Some in \<open>auto split: if_splits\<close>)
  qed
qed simp_all

lemma scan_some_exact:
  "scan_reports rs fy fq = Inr (Some r) \<Longrightarrow> exact_match r fy fq \<and> r \<in> set rs"
proof (induction rs)
  case Nil
  then show ?case by simp
next
  case (Cons x rs)
  from scan_step_cases [OF Cons.prems] Cons.IH show ?case by auto
qed

lemma server_never_matches_absent_or_short:
  "scan_reports rs fy fq = Inr (Some r) \<Longrightarrow> \<not> absent_or_short r"
  using scan_some_exact exact_not_absent_or_short by blast

subsection \<open>The loop of the trigger handlers\<close>

text \<open>
  Claim C5. The loop of \<open>find_quarterly_report\<close> skips a record whose date is absent or
  shorter than 7 characters and never returns it as an exact match
  (\<open>server_skips_absent_or_short\<close>, \<open>server_never_matches_absent_or_short\<close>). The loop
  in the trigger handlers has no such guard: on a record without a date, \<open>int("")\<close> raises
  \<open>ValueError\<close>, where \<open>find_quarterly_report\<close> skips the record and returns the match
  that follows it.
\<close>

theorem inline_loop_does_not_skip:
  "inline_find (JArr [JObj [(''totalRevenue'', JStr ''1'')],
                      JObj [(''fiscalDateEnding'', JStr ''2024-06-30'')]]) 2024 4
     = Inl ValueError
   \<and> find_quarterly_report (JArr [JObj [(''totalRevenue'', JStr ''1'')],
                      JObj [(''fiscalDateEnding'', JStr ''2024-06-30'')]]) 2024 4
     = Inr (Some (JObj [(''fiscalDateEnding'', JStr ''2024-06-30'')]))"
  by code_simp

text \<open>
  Claim C7. The two matchers do not select the same record on every input: with the dates
  \<open>2023-1\<close> and \<open>2024-6\<close> (6 characters each) and the request 2024 Q4,
  \<open>find_quarterly_report\<close> skips both and falls back to the first record, and the
  handlers' loop reads month 6 from the second and returns it as the match. They agree on
  lists whose dates are all texts of at least 7 characters
  (\<open>matchers_agree_on_long_dates\<close>, below).
\<close>

theorem matchers_select_different_records:
  "find_quarterly_report (JArr [JObj [(''fiscalDateEnding'', JStr ''2023-1'')],
                      JObj [(''fiscalDateEnding'', JStr ''2024-6'')]]) 2024 4
     = Inr (Some (JObj [(''fiscalDateEnding'', JStr ''2023-1'')]))
   \<and> inline_find (JArr [JObj [(''fiscalDateEnding'', JStr ''2023-1'')],
                      JObj [(''fiscalDateEnding'', JStr ''2024-6'')]]) 2024 4
     = Inr (Some (JObj [(''fiscalDateEnding'', JStr ''2024-6'')]))"
  by code_simp

lemma fallback_returns_undated_record:
  "find_quarterly_report (JArr [JObj [(''totalRevenue'', JStr ''1'')]]) 2024 4
   = Inr (Some (JObj [(''totalRevenue'', JStr ''1'')]))"
  by code_simp

lemma inline_step_text:
  "map_of kvs ''fiscalDateEnding'' = Some (JStr s) \<Longrightarrow>
   inline_scan (JObj kvs # rest) fy fq =
     (case py_int_str (take 4 s) of
        Inl e \<Rightarrow> Inl e
      | Inr y \<Rightarrow>
          (case py_int_str (take 2 (drop 5 s)) of
             Inl e \<Rightarrow> Inl e
           | Inr m \<Rightarrow>
               if y = fy \<and> map_month_to_quarter m = Some fq then Inr (Some (JObj kvs))
               else inline_scan rest fy fq))"
  by (simp add: inline_quarter_eq split: sum.splits)

lemma long_date_dict:
  "long_date r \<Longrightarrow> \<exists>kvs s. r = JObj kvs \<and> map_of kvs ''fiscalDateEnding'' = Some (JStr s) \<and> 7 \<le> length s"
  by (auto simp: long_date_def date_text_Some split: option.splits)

lemma scans_agree_on_long_dates:
  "\<forall>r \<in> set rs. long_date r \<Longrightarrow> inline_scan rs fy fq = scan_reports rs fy fq"
proof (induction rs)
  case Nil
  show ?case by simp
next
  case (Cons r rs)
  then obtain kvs s where r: "r = JObj kvs" "map_of kvs ''fiscalDateEnding'' = Some (JStr s)"
      "7 \<le> length s"
    using long_date_dict [of r] by auto
  from Cons have "inline_scan rs fy fq = scan_reports rs fy fq" by simp
  with r show ?case
    by (simp add: inline_step_text scan_step_text del: inline_scan.simps scan_reports.simps
        split: sum.splits)
qed

lemma exact_match_truthy: "exact_match r fy fq \<Longrightarrow> truthy r"
  by (auto simp: exact_match_def date_text_Some split: option.splits)

lemma matchers_agree_on_long_dates:
  assumes "\<forall>r \<in> set rs. long_date r"
  shows "inline_find (JArr rs) fy fq = find_quarterly_report (JArr rs) fy fq"
proof (cases "scan_reports rs fy fq")
  case (Inl e)
  with assms show ?thesis
    by (simp add: inline_find_def find_quarterly_report_def scans_agree_on_long_dates)
next
  case (Inr found)
  show ?thesis
  proof (cases found)
    case None
    show ?thesis
    proof (cases rs)
      case Nil
      then show ?thesis by (simp add: inline_find_def find_quarterly_report_def)
    next
      case (Cons x xs)
      with assms obtain kvs where "x = JObj kvs" using long_date_dict [of x] by auto
      with assms Inr None Cons show ?thesis
        by (simp add: inline_find_def find_quarterly_report_def scans_agree_on_long_dates
            del: inline_scan.simps scan_reports.simps)
    qed
  next
    case (Some t)
    with Inr have "truthy t" using scan_some_exact exact_match_truthy by blast
    with assms Inr Some show ?thesis
      by (simp add: inline_find_def find_quarterly_report_def scans_agree_on_long_dates)
  qed
qed

subsection \<open>The tools\<close>

lemma server_revenue_returns:
  "\<exists>doc made. get_company_revenue w cs fy fq = (Inr doc, made)"
  by (auto simp: get_company_revenue_def Let_def split: prod.splits sum.splits)

lemma server_free_cash_flow_returns:
  "\<exists>doc made. get_company_free_cash_flow w cs fy fq = (Inr doc, made)"
  by (auto simp: get_company_free_cash_flow_def Let_def split: prod.splits sum.splits)

lemma handler_returns_after_arguments:
  assumes "read_arguments w ctx = Inr a"
  shows "\<exists>doc made. fa_handler w f nd result ctx = (Inr doc, made)"
proof -
  obtain symbol fy fq where a: "a = (symbol, fy, fq)"
    by (cases a) auto
  obtain res made where b: "fa_try_body w f nd (result symbol fy fq) symbol fy fq = (res, made)"
    by (cases "fa_try_body w f nd (result symbol fy fq) symbol fy fq") auto
  show ?thesis
  proof (cases "symbol \<notin> set [''MSFT'', ''TSLA'', ''NVDA''] \<or> fq \<notin> set [1, 2, 3, 4]")
    case True
    with assms a show ?thesis
      by (auto simp: fa_handler_def)
  next
    case False
    then have v: "(symbol \<notin> set [''MSFT'', ''TSLA'', ''NVDA'']) = False"
        "(fq \<notin> set [1, 2, 3, 4]) = False"
      by simp_all
    have "fa_handler w f nd result ctx =
            (case (res, made) of
               (Inl e, made) \<Rightarrow> (Inr (fa_error_doc w e), made)
             | (Inr doc, made) \<Rightarrow> (Inr doc, made))"
      by (simp only: fa_handler_def assms a sum.case prod.case v if_False b)
    then show ?thesis
      by (cases res) simp_all
  qed
qed

lemma int_of_abc: "py_int_str ''abc'' = Inl ValueError"
  by code_simp

lemma read_arguments_bad_year:
  "read_arguments w (ContextObj (JObj [(''arguments'',
      JObj [(''company_symbol'', JStr ''MSFT''), (''fiscal_year'', JStr ''abc'')])]))
   = Inl ValueError"
  by (simp add: read_arguments_def int_of_abc)

text \<open>
  Claim C6. The tools of the standalone server return a document on every input
  (\<open>server_revenue_returns\<close>, \<open>server_free_cash_flow_returns\<close>), and so does a trigger
  handler once its arguments are read (\<open>handler_returns_after_arguments\<close>). But a handler
  reads its arguments before its \<open>try\<close>: with \<open>fiscal_year = "abc"\<close>, \<open>int("abc")\<close>
  raises \<open>ValueError\<close> and the exception leaves the handler.
\<close>

theorem handlers_propagate_argument_errors:
  "fa_get_company_revenue w (ContextObj (JObj [(''arguments'',
      JObj [(''company_symbol'', JStr ''MSFT''), (''fiscal_year'', JStr ''abc'')])]))
     = (Inl ValueError, [])
   \<and> fa_get_company_free_cash_flow w (ContextObj (JObj [(''arguments'',
      JObj [(''company_symbol'', JStr ''MSFT''), (''fiscal_year'', JStr ''abc'')])]))
     = (Inl ValueError, [])"
  by (simp add: fa_get_company_revenue_def fa_get_company_free_cash_flow_def fa_handler_def
      read_arguments_bad_year)

text \<open>
  Claim C8. When the uppercased symbol is not one of MSFT, TSLA, NVDA, or the quarter is not
  one of 1, 2, 3, 4, each tool of the standalone server returns an error document and makes
  no upstream request.
\<close>

theorem validation_makes_no_upstream_call:
  "py_upper company_symbol \<notin> {''MSFT'', ''TSLA'', ''NVDA''} \<or> fiscal_quarter \<notin> {1, 2, 3, 4}
   \<longrightarrow> (\<exists>message. get_company_revenue w company_symbol fiscal_year fiscal_quarter
                       = (Inr (error_doc message), []))
     \<and> (\<exists>message. get_company_free_cash_flow w company_symbol fiscal_year fiscal_quarter
                       = (Inr (error_doc message), []))"
  by (auto simp: get_company_revenue_def get_company_free_cash_flow_def Let_def
      VALID_SYMBOLS_def invalid_symbol_doc_def invalid_quarter_doc_def)

lemma upper_GOOG: "py_upper ''GOOG'' = ''GOOG''"
  by code_simp

lemma upper_msft: "py_upper ''msft'' = ''MSFT''"
  by code_simp

theorem validation_makes_no_upstream_call_witness:
  "\<forall>w. (\<exists>message. get_company_revenue w ''GOOG'' 2024 4 = (Inr (error_doc message), []))
      \<and> (\<exists>message. get_company_free_cash_flow w ''msft'' 2024 5 = (Inr (error_doc message), []))"
proof
  fix w
  from validation_makes_no_upstream_call [of "''GOOG''" 4 w 2024]
  have "\<exists>message. get_company_revenue w ''GOOG'' 2024 4 = (Inr (error_doc message), [])"
    by (simp add: upper_GOOG)
  moreover from validation_makes_no_upstream_call [of "''msft''" 5 w 2024]
  have "\<exists>message. get_company_free_cash_flow w ''msft'' 2024 5 = (Inr (error_doc message), [])"
    by simp
  ultimately show "(\<exists>message. get_company_revenue w ''GOOG'' 2024 4 = (Inr (error_doc message), []))
      \<and> (\<exists>message. get_company_free_cash_flow w ''msft'' 2024 5 = (Inr (error_doc message), []))"
    by simp
qed

lemma handler_validation_makes_no_upstream_call:
  "read_arguments w ctx = Inr (symbol, fy, fq)
   \<Longrightarrow> symbol \<notin> {''MSFT'', ''TSLA'', ''NVDA''} \<or> fq \<notin> {1, 2, 3, 4}
   \<Longrightarrow> \<exists>message. fa_handler w f nd result ctx = (Inr (error_doc message), [])"
  by (auto simp: fa_handler_def invalid_symbol_doc_def invalid_quarter_doc_def)

lemma unit_separator_not_stripped:
  "py_int_str [CHR 0x1F, CHR ''6''] = Inl ValueError"
  "py_float_str [CHR 0x1F, CHR ''5''] = Inl ValueError"
  by code_simp+

subsection \<open>The result document after a fallback\<close>

lemma server_document_for_selected:
  assumes "py_upper cs \<in> set VALID_SYMBOLS" and "fq \<in> set [1, 2, 3, 4]"
    and "fetch_alpha_vantage w ''INCOME_STATEMENT'' (py_upper cs) = (Inr data, made)"
    and "py_get data ''quarterlyReports'' (JArr []) = Inr (JArr rs)"
    and "find_quarterly_report (JArr rs) fy fq = Inr (Some r)" and "truthy r"
  shows "get_company_revenue w cs fy fq =
           (case revenue_result (py_upper cs) fy fq r of
              Inl e \<Rightarrow> (Inr (handle_exception w e), made)
            | Inr doc \<Rightarrow> (Inr doc, made))"
proof -
  from assms(5) have "rs \<noteq> []"
    by (auto simp: find_quarterly_report_def)
  with assms(4-6)
  have "revenue_from_data (py_upper cs) fy fq data = revenue_result (py_upper cs) fy fq r"
    by (simp add: revenue_from_data_def)
  with assms(1-3) show ?thesis
    by (simp add: get_company_revenue_def Let_def)
qed

lemma find_fallback:
  "scan_reports (r # rest) fy fq = Inr None
   \<Longrightarrow> find_quarterly_report (JArr (r # rest)) fy fq = Inr (Some r)"
  by (simp add: find_quarterly_report_def del: scan_reports.simps)

lemma find_exact:
  "scan_reports rs fy fq = Inr (Some r)
   \<Longrightarrow> find_quarterly_report (JArr rs) fy fq = Inr (Some r)"
  by (simp add: find_quarterly_report_def)

lemma revenue_result_shape:
  assumes "revenue_result symbol fy fq r = Inr doc"
  shows "\<exists>d m. doc = JObj
           [(''company'', JStr symbol),
            (''fiscal_year'', JInt fy),
            (''fiscal_quarter'', JInt fq),
            (''fiscal_date_ending'', d),
            (''total_revenue_usd_millions'', m),
            (''currency'', JStr ''USD''),
            (''data_source'', JStr ''Alpha Vantage'')]
         \<and> py_get r ''fiscalDateEnding'' JNull = Inr d"
proof (cases "total_revenue_usd_millions r")
  case (Inl e)
  with assms show ?thesis by (simp add: revenue_result_def)
next
  case (Inr m)
  with assms show ?thesis
    by (cases "py_get r ''fiscalDateEnding'' JNull") (auto simp: revenue_result_def)
qed

lemma fa_revenue_result_shape:
  assumes "fa_revenue_result symbol fy fq r = Inr doc"
  shows "\<exists>d m raw. doc = JObj
           [(''company'', JStr symbol),
            (''fiscal_year'', JInt fy),
            (''fiscal_quarter'', JInt fq),
            (''fiscal_date_ending'', d),
            (''total_revenue_usd_millions'', m),
            (''currency'', JStr ''USD''),
            (''data_source'', JStr ''Alpha Vantage''),
            (''raw_revenue'', raw)]
         \<and> py_get r ''fiscalDateEnding'' JNull = Inr d"
proof (cases r)
  case (JObj kvs)
  with assms show ?thesis
    by (cases "revenue_millions (case map_of kvs ''totalRevenue'' of None \<Rightarrow> JStr ''0'' | Some v \<Rightarrow> v)")
       (auto simp: fa_revenue_result_def)
qed (use assms in \<open>simp_all add: fa_revenue_result_def\<close>)

lemma inline_scan_head_dict:
  "inline_scan (r # rest) fy fq = Inr found \<Longrightarrow> \<exists>kvs. r = JObj kvs"
  by (cases r) simp_all

lemma inline_find_fallback:
  assumes "inline_scan (r # rest) fy fq = Inr None"
  shows "inline_find (JArr (r # rest)) fy fq = Inr (Some r)"
proof -
  from assms obtain kvs where "r = JObj kvs"
    using inline_scan_head_dict by blast
  with assms show ?thesis
    by (simp add: inline_find_def del: inline_scan.simps)
qed

lemma inline_scan_some_truthy:
  "inline_scan rs fy fq = Inr (Some r) \<Longrightarrow> truthy r"
proof (induction rs)
  case Nil
  then show ?case by simp
next
  case (Cons x rs)
  show ?case
  proof (cases x)
    case (JObj kvs)
    show ?thesis
    proof (cases "map_of kvs ''fiscalDateEnding''")
      case None
      with Cons.prems JObj have False
        by (simp add: py_int_str_def strip_def split_sign_def digits_value_def)
      then show ?thesis ..
    next
      case (Some d)
      then have ne: "kvs \<noteq> []" by auto
      from Cons.prems JObj Some
      have "r = x \<or> inline_scan rs fy fq = Inr (Some r)"
        by (auto split: sum.splits option.splits if_splits)
      with Cons.IH JObj ne show ?thesis by auto
    qed
  qed (use Cons.prems in simp_all)
qed

lemma inline_find_exact:
  "inline_scan rs fy fq = Inr (Some r) \<Longrightarrow> inline_find (JArr rs) fy fq = Inr (Some r)"
  by (simp add: inline_find_def inline_scan_some_truthy)

lemma server_free_cash_flow_document_for_selected:
  assumes "py_upper cs \<in> set VALID_SYMBOLS" and "fq \<in> set [1, 2, 3, 4]"
    and "fetch_alpha_vantage w ''CASH_FLOW'' (py_upper cs) = (Inr data, made)"
    and "py_get data ''quarterlyReports'' (JArr []) = Inr (JArr rs)"
    and "find_quarterly_report (JArr rs) fy fq = Inr (Some r)" and "truthy r"
  shows "get_company_free_cash_flow w cs fy fq =
           (case free_cash_flow_result (py_upper cs) fy fq r of
              Inl e \<Rightarrow> (Inr (handle_exception w e), made)
            | Inr doc \<Rightarrow> (Inr doc, made))"
proof -
  from assms(5) have "rs \<noteq> []"
    by (auto simp: find_quarterly_report_def)
  with assms(4-6)
  have "free_cash_flow_from_data (py_upper cs) fy fq data
          = free_cash_flow_result (py_upper cs) fy fq r"
    by (simp add: free_cash_flow_from_data_def)
  with assms(1-3) show ?thesis
    by (simp add: get_company_free_cash_flow_def Let_def)
qed

lemma free_cash_flow_result_shape:
  assumes "free_cash_flow_result symbol fy fq r = Inr doc"
  shows "\<exists>d f o' c. doc = JObj
           [(''company'', JStr symbol),
            (''fiscal_year'', JInt fy),
            (''fiscal_quarter'', JInt fq),
            (''fiscal_date_ending'', d),
            (''free_cash_flow_usd_millions'', f),
            (''operating_cash_flow_usd_millions'', o'),
            (''capital_expenditures_usd_millions'', c),
            (''currency'', JStr ''USD''),
            (''data_source'', JStr ''Alpha Vantage''),
            (''calculation'', JStr ''Operating Cash Flow - Capital Expenditures'')]
         \<and> py_get r ''fiscalDateEnding'' JNull = Inr d"
proof (cases "free_cash_flow_values r")
  case (Inl e)
  with assms show ?thesis by (simp add: free_cash_flow_result_def)
next
  case (Inr t)
  obtain f o' c where "t = (f, o', c)" by (cases t) auto
  with assms Inr show ?thesis
    by (cases "py_get r ''fiscalDateEnding'' JNull") (auto simp: free_cash_flow_result_def)
qed

lemma handler_document_for_selected:
  assumes "read_arguments w ctx = Inr (symbol, fy, fq)"
    and "symbol \<in> set [''MSFT'', ''TSLA'', ''NVDA'']" and "fq \<in> set [1, 2, 3, 4]"
    and "get_env w = Inr api_key"
    and "http_get_json w function symbol api_key = Inr data"
    and "py_get data ''quarterlyReports'' (JArr []) = Inr (JArr rs)"
    and "inline_find (JArr rs) fy fq = Inr (Some r)"
  shows "fa_handler w function no_data result ctx =
           (case result symbol fy fq r of
              Inl e \<Rightarrow> (Inr (fa_error_doc w e), [(function, symbol)])
            | Inr doc \<Rightarrow> (Inr doc, [(function, symbol)]))"
proof -
  have b: "fa_try_body w function no_data (result symbol fy fq) symbol fy fq
           = (result symbol fy fq r, [(function, symbol)])"
    using assms(4-7) by (simp add: fa_try_body_def)
  from assms(2,3) have v: "(symbol \<notin> set [''MSFT'', ''TSLA'', ''NVDA'']) = False"
      "(fq \<notin> set [1, 2, 3, 4]) = False"
    by simp_all
  have "fa_handler w function no_data result ctx =
          (case (result symbol fy fq r, [(function, symbol)]) of
             (Inl e, made) \<Rightarrow> (Inr (fa_error_doc w e), made)
           | (Inr doc, made) \<Rightarrow> (Inr doc, made))"
    by (simp only: fa_handler_def assms(1) sum.case prod.case v if_False b)
  then show ?thesis
    by (cases "result symbol fy fq r") simp_all
qed

lemma read_arguments_integers:
  assumes "(case ctx of ContextStr s \<Rightarrow> json_loads w s | ContextObj v \<Rightarrow> Inr v) = Inr content"
    and "py_get content ''arguments'' (JObj []) = Inr args"
    and "py_get args ''company_symbol'' (JStr ''MSFT'') = Inr (JStr cs)"
    and "py_get args ''fiscal_year'' (JInt 2024) = Inr (JInt fy)"
    and "py_get args ''fiscal_quarter'' (JInt 4) = Inr (JInt fq)"
  shows "read_arguments w ctx = Inr (py_upper cs, fy, fq)"
  using assms by (simp add: read_arguments_def)

text \<open>
  Claim C10, as amended. When the matcher falls back to the first report, each of the four
  tools returns the document built from that report by the same function that builds it
  from an exact match. A success document has the \<open>fiscal_year\<close> and \<open>fiscal_quarter\<close> the
  tool was called with, the report's own \<open>fiscal_date_ending\<close>, and a fixed list of fields
  none of which tells a fallback from an exact match. A trigger handler is called with the
  values \<open>int(...)\<close> makes of its arguments: integers are carried unchanged.
\<close>

theorem fallback_is_not_flagged:
  "(py_upper cs \<in> set VALID_SYMBOLS \<and> fq \<in> set [1, 2, 3, 4]
      \<and> py_get data ''quarterlyReports'' (JArr []) = Inr (JArr (r # rest))
      \<and> truthy r
      \<and> (scan_reports (r # rest) fy fq = Inr None \<or> scan_reports (r # rest) fy fq = Inr (Some r))
    \<longrightarrow> (fetch_alpha_vantage w ''INCOME_STATEMENT'' (py_upper cs) = (Inr data, made)
          \<longrightarrow> get_company_revenue w cs fy fq =
                (case revenue_result (py_upper cs) fy fq r of
                   Inl e \<Rightarrow> (Inr (handle_exception w e), made)
                 | Inr doc \<Rightarrow> (Inr doc, made)))
        \<and> (fetch_alpha_vantage w ''CASH_FLOW'' (py_upper cs) = (Inr data, made)
          \<longrightarrow> get_company_free_cash_flow w cs fy fq =
                (case free_cash_flow_result (py_upper cs) fy fq r of
                   Inl e \<Rightarrow> (Inr (handle_exception w e), made)
                 | Inr doc \<Rightarrow> (Inr doc, made))))
   \<and> (read_arguments w ctx = Inr (symbol, fy, fq)
      \<and> symbol \<in> set [''MSFT'', ''TSLA'', ''NVDA''] \<and> fq \<in> set [1, 2, 3, 4]
      \<and> get_env w = Inr api_key
      \<and> py_get payload ''quarterlyReports'' (JArr []) = Inr (JArr (r # rest))
      \<and> (inline_scan (r # rest) fy fq = Inr None \<or> inline_scan (r # rest) fy fq = Inr (Some r))
    \<longrightarrow> (http_get_json w ''INCOME_STATEMENT'' symbol api_key = Inr payload
          \<longrightarrow> fa_get_company_revenue w ctx =
                (case fa_revenue_result symbol fy fq r of
                   Inl e \<Rightarrow> (Inr (fa_error_doc w e), [(''INCOME_STATEMENT'', symbol)])
                 | Inr doc \<Rightarrow> (Inr doc, [(''INCOME_STATEMENT'', symbol)])))
        \<and> (http_get_json w ''CASH_FLOW'' symbol api_key = Inr payload
          \<longrightarrow> fa_get_company_free_cash_flow w ctx =
                (case free_cash_flow_result symbol fy fq r of
                   Inl e \<Rightarrow> (Inr (fa_error_doc w e), [(''CASH_FLOW'', symbol)])
                 | Inr doc \<Rightarrow> (Inr doc, [(''CASH_FLOW'', symbol)]))))
   \<and> (\<forall>s doc. revenue_result s fy fq r = Inr doc
        \<longrightarrow> (\<exists>d m. doc = JObj
                 [(''company'', JStr s),
                  (''fiscal_year'', JInt fy),
                  (''fiscal_quarter'', JInt fq),
                  (''fiscal_date_ending'', d),
                  (''total_revenue_usd_millions'', m),
                  (''currency'', JStr ''USD''),
                  (''data_source'', JStr ''Alpha Vantage'')]
               \<and> py_get r ''fiscalDateEnding'' JNull = Inr d))
   \<and> (\<forall>s doc. fa_revenue_result s fy fq r = Inr doc
        \<longrightarrow> (\<exists>d m raw. doc = JObj
                 [(''company'', JStr s),
                  (''fiscal_year'', JInt fy),
                  (''fiscal_quarter'', JInt fq),
                  (''fiscal_date_ending'', d),
                  (''total_revenue_usd_millions'', m),
                  (''currency'', JStr ''USD''),
                  (''data_source'', JStr ''Alpha Vantage''),
                  (''raw_revenue'', raw)]
               \<and> py_get r ''fiscalDateEnding'' JNull = Inr d))
   \<and> (\<forall>s doc. free_cash_flow_result s fy fq r = Inr doc
        \<longrightarrow> (\<exists>d f o' c. doc = JObj
                 [(''company'', JStr s),
                  (''fiscal_year'', JInt fy),
                  (''fiscal_quarter'', JInt fq),
                  (''fiscal_date_ending'', d),
                  (''free_cash_flow_usd_millions'', f),
                  (''operating_cash_flow_usd_millions'', o'),
                  (''capital_expenditures_usd_millions'', c),
                  (''currency'', JStr ''USD''),
                  (''data_source'', JStr ''Alpha Vantage''),
                  (''calculation'', JStr ''Operating Cash Flow - Capital Expenditures'')]
               \<and> py_get r ''fiscalDateEnding'' JNull = Inr d))
   \<and> (\<forall>content args name y q.
        (case ctx of ContextStr t \<Rightarrow> json_loads w t | ContextObj v \<Rightarrow> Inr v) = Inr content
        \<and> py_get content ''arguments'' (JObj []) = Inr args
        \<and> py_get args ''company_symbol'' (JStr ''MSFT'') = Inr (JStr name)
        \<and> py_get args ''fiscal_year'' (JInt 2024) = Inr (JInt y)
        \<and> py_get args ''fiscal_quarter'' (JInt 4) = Inr (JInt q)
        \<longrightarrow> read_arguments w ctx = Inr (py_upper name, y, q))"
proof (intro conjI impI allI)
  assume h: "py_upper cs \<in> set VALID_SYMBOLS \<and> fq \<in> set [1, 2, 3, 4]
      \<and> py_get data ''quarterlyReports'' (JArr []) = Inr (JArr (r # rest))
      \<and> truthy r
      \<and> (scan_reports (r # rest) fy fq = Inr None \<or> scan_reports (r # rest) fy fq = Inr (Some r))"
  then have f: "find_quarterly_report (JArr (r # rest)) fy fq = Inr (Some r)"
    using find_fallback find_exact by blast
  {
    assume "fetch_alpha_vantage w ''INCOME_STATEMENT'' (py_upper cs) = (Inr data, made)"
    with h f show "get_company_revenue w cs fy fq =
                (case revenue_result (py_upper cs) fy fq r of
                   Inl e \<Rightarrow> (Inr (handle_exception w e), made)
                 | Inr doc \<Rightarrow> (Inr doc, made))"
      by (intro server_document_for_selected [where rs = "r # rest" and data = data]) simp_all
  }
  {
    assume "fetch_alpha_vantage w ''CASH_FLOW'' (py_upper cs) = (Inr data, made)"
    with h f show "get_company_free_cash_flow w cs fy fq =
                (case free_cash_flow_result (py_upper cs) fy fq r of
                   Inl e \<Rightarrow> (Inr (handle_exception w e), made)
                 | Inr doc \<Rightarrow> (Inr doc, made))"
      by (intro server_free_cash_flow_document_for_selected
            [where rs = "r # rest" and data = data]) simp_all
  }
next
  assume h: "read_arguments w ctx = Inr (symbol, fy, fq)
      \<and> symbol \<in> set [''MSFT'', ''TSLA'', ''NVDA''] \<and> fq \<in> set [1, 2, 3, 4]
      \<and> get_env w = Inr api_key
      \<and> py_get payload ''quarterlyReports'' (JArr []) = Inr (JArr (r # rest))
      \<and> (inline_scan (r # rest) fy fq = Inr None \<or> inline_scan (r # rest) fy fq = Inr (Some r))"
  then have f: "inline_find (JArr (r # rest)) fy fq = Inr (Some r)"
    using inline_find_fallback inline_find_exact by blast
  {
    assume "http_get_json w ''INCOME_STATEMENT'' symbol api_key = Inr payload"
    with h f show "fa_get_company_revenue w ctx =
                (case fa_revenue_result symbol fy fq r of
                   Inl e \<Rightarrow> (Inr (fa_error_doc w e), [(''INCOME_STATEMENT'', symbol)])
                 | Inr doc \<Rightarrow> (Inr doc, [(''INCOME_STATEMENT'', symbol)]))"
      unfolding fa_get_company_revenue_def
      by (intro handler_document_for_selected
            [where rs = "r # rest" and data = payload and api_key = api_key]) simp_all
  }
  {
    assume "http_get_json w ''CASH_FLOW'' symbol api_key = Inr payload"
    with h f show "fa_get_company_free_cash_flow w ctx =
                (case free_cash_flow_result symbol fy fq r of
                   Inl e \<Rightarrow> (Inr (fa_error_doc w e), [(''CASH_FLOW'', symbol)])
                 | Inr doc \<Rightarrow> (Inr doc, [(''CASH_FLOW'', symbol)]))"
      unfolding fa_get_company_free_cash_flow_def
      by (intro handler_document_for_selected
            [where rs = "r # rest" and data = payload and api_key = api_key]) simp_all
  }
next
  fix s doc
  assume "revenue_result s fy fq r = Inr doc"
  then show "\<exists>d m. doc = JObj
                 [(''company'', JStr s),
                  (''fiscal_year'', JInt fy),
                  (''fiscal_quarter'', JInt fq),
                  (''fiscal_date_ending'', d),
                  (''total_revenue_usd_millions'', m),
                  (''currency'', JStr ''USD''),
                  (''data_source'', JStr ''Alpha Vantage'')]
               \<and> py_get r ''fiscalDateEnding'' JNull = Inr d"
    by (rule revenue_result_shape)
next
  fix s doc
  assume "fa_revenue_result s fy fq r = Inr doc"
  then show "\<exists>d m raw. doc = JObj
                 [(''company'', JStr s),
                  (''fiscal_year'', JInt fy),
                  (''fiscal_quarter'', JInt fq),
                  (''fiscal_date_ending'', d),
                  (''total_revenue_usd_millions'', m),
                  (''currency'', JStr ''USD''),
                  (''data_source'', JStr ''Alpha Vantage''),
                  (''raw_revenue'', raw)]
               \<and> py_get r ''fiscalDateEnding'' JNull = Inr d"
    by (rule fa_revenue_result_shape)
next
  fix s doc
  assume "free_cash_flow_result s fy fq r = Inr doc"
  then show "\<exists>d f o' c. doc = JObj
                 [(''company'', JStr s),
                  (''fiscal_year'', JInt fy),
                  (''fiscal_quarter'', JInt fq),
                  (''fiscal_date_ending'', d),
                  (''free_cash_flow_usd_millions'', f),
                  (''operating_cash_flow_usd_millions'', o'),
                  (''capital_expenditures_usd_millions'', c),
                  (''currency'', JStr ''USD''),
                  (''data_source'', JStr ''Alpha Vantage''),
                  (''calculation'', JStr ''Operating Cash Flow - Capital Expenditures'')]
               \<and> py_get r ''fiscalDateEnding'' JNull = Inr d"
    by (rule free_cash_flow_result_shape)
next
  fix content args name y q
  assume "(case ctx of ContextStr t \<Rightarrow> json_loads w t | ContextObj v \<Rightarrow> Inr v) = Inr content
        \<and> py_get content ''arguments'' (JObj []) = Inr args
        \<and> py_get args ''company_symbol'' (JStr ''MSFT'') = Inr (JStr name)
        \<and> py_get args ''fiscal_year'' (JInt 2024) = Inr (JInt y)
        \<and> py_get args ''fiscal_quarter'' (JInt 4) = Inr (JInt q)"
  then show "read_arguments w ctx = Inr (py_upper name, y, q)"
    by (intro read_arguments_integers [where content = content and args = args]) simp_all
qed

lemma example_scan: "scan_reports [example_report] 2024 4 = Inr None"
  unfolding example_report_def by code_simp

lemma example_inline_scan: "inline_scan [example_report] 2024 4 = Inr None"
  unfolding example_report_def by code_simp

lemma example_revenue: "total_revenue_usd_millions example_report = Inr (PyFloat (Finite 5))"
  unfolding example_report_def by code_simp

lemma example_revenue_millions: "revenue_millions (JStr ''5000000'') = Inr (PyFloat (Finite 5))"
  by code_simp

lemma example_free_cash_flow:
  "free_cash_flow_values example_report = Inr (Finite 0, Finite 0, Finite 0)"
  unfolding example_report_def by code_simp

lemma example_revenue_result:
  "revenue_result s 2024 4 example_report =
     Inr (JObj
       [(''company'', JStr s),
        (''fiscal_year'', JInt 2024),
        (''fiscal_quarter'', JInt 4),
        (''fiscal_date_ending'', JStr ''2023-12-31''),
        (''total_revenue_usd_millions'', JFloat (Finite 5)),
        (''currency'', JStr ''USD''),
        (''data_source'', JStr ''Alpha Vantage'')])"
  by (simp add: revenue_result_def example_revenue) (simp add: example_report_def)

lemma example_fa_revenue_result:
  "fa_revenue_result s 2024 4 example_report =
     Inr (JObj
       [(''company'', JStr s),
        (''fiscal_year'', JInt 2024),
        (''fiscal_quarter'', JInt 4),
        (''fiscal_date_ending'', JStr ''2023-12-31''),
        (''total_revenue_usd_millions'', JFloat (Finite 5)),
        (''currency'', JStr ''USD''),
        (''data_source'', JStr ''Alpha Vantage''),
        (''raw_revenue'', JStr ''5000000'')])"
  by (simp add: fa_revenue_result_def example_report_def example_revenue_millions)

lemma example_free_cash_flow_result:
  "free_cash_flow_result s 2024 4 example_report =
     Inr (JObj
       [(''company'', JStr s),
        (''fiscal_year'', JInt 2024),
        (''fiscal_quarter'', JInt 4),
        (''fiscal_date_ending'', JStr ''2023-12-31''),
        (''free_cash_flow_usd_millions'', JFloat (Finite 0)),
        (''operating_cash_flow_usd_millions'', JFloat (Finite 0)),
        (''capital_expenditures_usd_millions'', JFloat (Finite 0)),
        (''currency'', JStr ''USD''),
        (''data_source'', JStr ''Alpha Vantage''),
        (''calculation'', JStr ''Operating Cash Flow - Capital Expenditures'')])"
  by (simp add: free_cash_flow_result_def example_free_cash_flow) (simp add: example_report_def)

theorem fallback_is_not_flagged_witness:
  "get_company_revenue example_world ''msft'' 2024 4 =
     (Inr (JObj
        [(''company'', JStr ''MSFT''),
         (''fiscal_year'', JInt 2024),
         (''fiscal_quarter'', JInt 4),
         (''fiscal_date_ending'', JStr ''2023-12-31''),
         (''total_revenue_usd_millions'', JFloat (Finite 5)),
         (''currency'', JStr ''USD''),
         (''data_source'', JStr ''Alpha Vantage'')]),
      [(''INCOME_STATEMENT'', ''MSFT'')])
   \<and> get_company_free_cash_flow example_world ''msft'' 2024 4 =
     (Inr (JObj
        [(''company'', JStr ''MSFT''),
         (''fiscal_year'', JInt 2024),
         (''fiscal_quarter'', JInt 4),
         (''fiscal_date_ending'', JStr ''2023-12-31''),
         (''free_cash_flow_usd_millions'', JFloat (Finite 0)),
         (''operating_cash_flow_usd_millions'', JFloat (Finite 0)),
         (''capital_expenditures_usd_millions'', JFloat (Finite 0)),
         (''currency'', JStr ''USD''),
         (''data_source'', JStr ''Alpha Vantage''),
         (''calculation'', JStr ''Operating Cash Flow - Capital Expenditures'')]),
      [(''CASH_FLOW'', ''MSFT'')])
   \<and> fa_get_company_revenue example_world
       (ContextObj (JObj [(''arguments'',
          JObj [(''company_symbol'', JStr ''msft''), (''fiscal_year'', JInt 2024)])])) =
     (Inr (JObj
        [(''company'', JStr ''MSFT''),
         (''fiscal_year'', JInt 2024),
         (''fiscal_quarter'', JInt 4),
         (''fiscal_date_ending'', JStr ''2023-12-31''),
         (''total_revenue_usd_millions'', JFloat (Finite 5)),
         (''currency'', JStr ''USD''),
         (''data_source'', JStr ''Alpha Vantage''),
         (''raw_revenue'', JStr ''5000000'')]),
      [(''INCOME_STATEMENT'', ''MSFT'')])
   \<and> fa_get_company_free_cash_flow example_world
       (ContextObj (JObj [(''arguments'',
          JObj [(''company_symbol'', JStr ''msft''), (''fiscal_year'', JInt 2024)])])) =
     (Inr (JObj
        [(''company'', JStr ''MSFT''),
         (''fiscal_year'', JInt 2024),
         (''fiscal_quarter'', JInt 4),
         (''fiscal_date_ending'', JStr ''2023-12-31''),
         (''free_cash_flow_usd_millions'', JFloat (Finite 0)),
         (''operating_cash_flow_usd_millions'', JFloat (Finite 0)),
         (''capital_expenditures_usd_millions'', JFloat (Finite 0)),
         (''currency'', JStr ''USD''),
         (''data_source'', JStr ''Alpha Vantage''),
         (''calculation'', JStr ''Operating Cash Flow - Capital Expenditures'')]),
      [(''CASH_FLOW'', ''MSFT'')])"
proof -
  let ?payload = "JObj [(''quarterlyReports'', JArr [example_report])]"
  let ?args = "JObj [(''company_symbol'', JStr ''msft''), (''fiscal_year'', JInt 2024)]"
  let ?ctx = "ContextObj (JObj [(''arguments'', ?args)])"
  have t: "truthy example_report"
    by (simp add: example_report_def)
  have f1: "fetch_alpha_vantage example_world ''INCOME_STATEMENT'' (py_upper ''msft'')
             = (Inr ?payload, [(''INCOME_STATEMENT'', ''MSFT'')])"
    by (simp add: fetch_alpha_vantage_def get_api_key_def example_world_def upper_msft)
  have f2: "fetch_alpha_vantage example_world ''CASH_FLOW'' (py_upper ''msft'')
             = (Inr ?payload, [(''CASH_FLOW'', ''MSFT'')])"
    by (simp add: fetch_alpha_vantage_def get_api_key_def example_world_def upper_msft)
  have e: "get_env example_world = Inr ''k''"
    by (simp add: get_env_def example_world_def)
  have g: "http_get_json example_world ''INCOME_STATEMENT'' ''MSFT'' ''k'' = Inr ?payload"
      "http_get_json example_world ''CASH_FLOW'' ''MSFT'' ''k'' = Inr ?payload"
    by (simp_all add: example_world_def)
  have q: "py_get ?payload ''quarterlyReports'' (JArr []) = Inr (JArr [example_report])"
    by simp
  have v: "py_upper ''msft'' \<in> set VALID_SYMBOLS" "(4::int) \<in> set [1, 2, 3, 4]"
      "''MSFT'' \<in> set [''MSFT'', ''TSLA'', ''NVDA'']"
    by (simp_all add: upper_msft VALID_SYMBOLS_def)
  note inst1 = fallback_is_not_flagged
    [where cs = "''msft''" and fq = 4 and fy = 2024 and w = example_world
       and data = ?payload and made = "[(''INCOME_STATEMENT'', ''MSFT'')]"
       and r = example_report and rest = "[]" and ctx = ?ctx and symbol = "''MSFT''"
       and api_key = "''k''" and payload = ?payload]
  note inst2 = fallback_is_not_flagged
    [where cs = "''msft''" and fq = 4 and fy = 2024 and w = example_world
       and data = ?payload and made = "[(''CASH_FLOW'', ''MSFT'')]"
       and r = example_report and rest = "[]" and ctx = ?ctx and symbol = "''MSFT''"
       and api_key = "''k''" and payload = ?payload]
  from inst1 have "read_arguments example_world ?ctx = Inr (py_upper ''msft'', 2024, 4)"
    by simp
  then have a: "read_arguments example_world ?ctx = Inr (''MSFT'', 2024, 4)"
    by (simp add: upper_msft)
  from inst1 v t q example_scan f1
  have s1: "get_company_revenue example_world ''msft'' 2024 4 =
          (case revenue_result (py_upper ''msft'') 2024 4 example_report of
             Inl e \<Rightarrow> (Inr (handle_exception example_world e), [(''INCOME_STATEMENT'', ''MSFT'')])
           | Inr doc \<Rightarrow> (Inr doc, [(''INCOME_STATEMENT'', ''MSFT'')]))"
    by blast
  from inst2 v t q example_scan f2
  have s2: "get_company_free_cash_flow example_world ''msft'' 2024 4 =
          (case free_cash_flow_result (py_upper ''msft'') 2024 4 example_report of
             Inl e \<Rightarrow> (Inr (handle_exception example_world e), [(''CASH_FLOW'', ''MSFT'')])
           | Inr doc \<Rightarrow> (Inr doc, [(''CASH_FLOW'', ''MSFT'')]))"
    by blast
  from inst1 a v e q example_inline_scan g
  have h1: "fa_get_company_revenue example_world ?ctx =
          (case fa_revenue_result ''MSFT'' 2024 4 example_report of
             Inl e \<Rightarrow> (Inr (fa_error_doc example_world e), [(''INCOME_STATEMENT'', ''MSFT'')])
           | Inr doc \<Rightarrow> (Inr doc, [(''INCOME_STATEMENT'', ''MSFT'')]))"
    by blast
  from inst1 a v e q example_inline_scan g
  have h2: "fa_get_company_free_cash_flow example_world ?ctx =
          (case free_cash_flow_result ''MSFT'' 2024 4 example_report of
             Inl e \<Rightarrow> (Inr (fa_error_doc example_world e), [(''CASH_FLOW'', ''MSFT'')])
           | Inr doc \<Rightarrow> (Inr doc, [(''CASH_FLOW'', ''MSFT'')]))"
    by blast
  from s1 s2 h1 h2 show ?thesis
    by (simp add: example_revenue_result example_fa_revenue_result
        example_free_cash_flow_result upper_msft)
qed

text \<open>
  Claim C10 as stated fails in the trigger handlers: a request for the fiscal year 2024.5
  falls back to the report for 2023-12-31 and the document carries \<open>int(2024.5) = 2024\<close>,
  not the requested value.
\<close>

theorem handler_document_carries_converted_year:
  "fa_get_company_revenue example_world
       (ContextObj (JObj [(''arguments'',
          JObj [(''company_symbol'', JStr ''msft''),
                (''fiscal_year'', JFloat (Finite (4049 / 2)))])])) =
     (Inr (JObj
        [(''company'', JStr ''MSFT''),
         (''fiscal_year'', JInt 2024),
         (''fiscal_quarter'', JInt 4),
         (''fiscal_date_ending'', JStr ''2023-12-31''),
         (''total_revenue_usd_millions'', JFloat (Finite 5)),
         (''currency'', JStr ''USD''),
         (''data_source'', JStr ''Alpha Vantage''),
         (''raw_revenue'', JStr ''5000000'')]),
      [(''INCOME_STATEMENT'', ''MSFT'')])
   \<and> inline_scan [example_report] 2024 4 = Inr None
   \<and> JInt 2024 \<noteq> JFloat (Finite (4049 / 2))"
proof -
  let ?ctx = "ContextObj (JObj [(''arguments'',
          JObj [(''company_symbol'', JStr ''msft''),
                (''fiscal_year'', JFloat (Finite (4049 / 2)))])])"
  have "trunc_rat (4049 / 2) = 2024"
    by code_simp
  then have a: "read_arguments example_world ?ctx = Inr (''MSFT'', 2024, 4)"
    by (simp add: read_arguments_def upper_msft)
  have "fa_get_company_revenue example_world ?ctx =
          (case fa_revenue_result ''MSFT'' 2024 4 example_report of
             Inl e \<Rightarrow> (Inr (fa_error_doc example_world e), [(''INCOME_STATEMENT'', ''MSFT'')])
           | Inr doc \<Rightarrow> (Inr doc, [(''INCOME_STATEMENT'', ''MSFT'')]))"
    unfolding fa_get_company_revenue_def
    by (rule handler_document_for_selected
          [where api_key = "''k''" and rs = "[example_report]"
             and data = "JObj [(''quarterlyReports'', JArr [example_report])]", OF a])
       (simp_all add: get_env_def example_world_def
          inline_find_fallback [OF example_inline_scan])
  then have "fa_get_company_revenue example_world ?ctx =
     (Inr (JObj
        [(''company'', JStr ''MSFT''),
         (''fiscal_year'', JInt 2024),
         (''fiscal_quarter'', JInt 4),
         (''fiscal_date_ending'', JStr ''2023-12-31''),
         (''total_revenue_usd_millions'', JFloat (Finite 5)),
         (''currency'', JStr ''USD''),
         (''data_source'', JStr ''Alpha Vantage''),
         (''raw_revenue'', JStr ''5000000'')]),
      [(''INCOME_STATEMENT'', ''MSFT'')])"
    by (simp add: example_fa_revenue_result)
  moreover have "JInt 2024 \<noteq> JFloat (Finite (4049 / 2))"
    by simp
  ultimately show ?thesis
    using example_inline_scan by blast
qed

end
